theory Spec2Isabelle
  imports Main "HOL-Library.AList" "HOL-Library.Sublist"
begin

section \<open>Values, strings and Python idioms\<close>

text \<open>
  Strings are the UTF-8 bytes of Python's strings.  JSON values stand for the Python
  objects that \<open>json.loads\<close> produces and that tools take and return (\<open>dict\<close> as an
  association list in insertion order).
\<close>

datatype json =
    JNull
  | JBool bool
  | JNum int
  | JStr string
  | JArr "json list"
  | JObj "(string \<times> json) list"

datatype error =
    IndexError
  | AttributeError
  | TypeError
  | KeyError
  | JSONDecodeError
  | ValidationError
  | GraphRecursionError

text \<open>
  A field of the state dictionary (and a key of an update dictionary) is absent, holds
  \<open>None\<close>, or holds a value.  \<open>state.get(k, d)\<close> yields \<open>d\<close> only for an absent key.
\<close>

datatype 'a slot = Absent | Null | Val 'a

fun dict_get :: "'a slot \<Rightarrow> 'a option \<Rightarrow> 'a option" where
  "dict_get Absent d = d"
| "dict_get Null d = None"
| "dict_get (Val v) d = Some v"

fun to_slot :: "'a option \<Rightarrow> 'a slot" where
  "to_slot None = Null"
| "to_slot (Some v) = Val v"

text \<open>Truth values of the objects the handlers test with \<open>if x\<close> and \<open>x or d\<close>.\<close>

fun truthy :: "json \<Rightarrow> bool" where
  "truthy JNull = False"
| "truthy (JBool b) = b"
| "truthy (JNum n) = (n \<noteq> 0)"
| "truthy (JStr s) = (s \<noteq> [])"
| "truthy (JArr xs) = (xs \<noteq> [])"
| "truthy (JObj kv) = (kv \<noteq> [])"

fun truthy_str :: "string option \<Rightarrow> bool" where
  "truthy_str None = False"
| "truthy_str (Some s) = (s \<noteq> [])"

fun truthy_json :: "json option \<Rightarrow> bool" where
  "truthy_json None = False"
| "truthy_json (Some j) = truthy j"

text \<open>
  \<open>lower\<close> is applied by the nodes to the two specialist names only, which are ASCII;
  \<open>str.upper\<close> and \<open>str.strip\<close>, which the nodes apply to text of the model and of the
  caller, are parameters of the environment below.
\<close>

definition lower_char :: "char \<Rightarrow> char" where
  "lower_char c =
     (let n = (of_char c :: nat) in if 65 \<le> n \<and> n \<le> 90 then char_of (n + 32) else c)"

definition lower :: "string \<Rightarrow> string" where
  "lower s = map lower_char s"

text \<open>\<open>p in s\<close> on strings: \<open>p\<close> occurs in \<open>s\<close> as a contiguous block.\<close>

fun str_in :: "string \<Rightarrow> string \<Rightarrow> bool" where
  "str_in p [] = (p = [])"
| "str_in p (c # cs) = (prefix p (c # cs) \<or> str_in p cs)"

text \<open>\<open>sep.join(xs)\<close>.\<close>

fun join :: "string \<Rightarrow> string list \<Rightarrow> string" where
  "join sep [] = []"
| "join sep [x] = x"
| "join sep (x # y # ys) = x @ sep @ join sep (y # ys)"

text \<open>An f-string field holding a string or \<open>None\<close>.\<close>

fun fmt_opt :: "string option \<Rightarrow> string" where
  "fmt_opt None = ''None''"
| "fmt_opt (Some s) = s"

section \<open>Conversation state (AgentState) and commands\<close>

datatype tool_call = ToolCall (tc_name: string) (tc_args: "(string \<times> json) list") (tc_id: string)

datatype message =
    HumanMessage string
  | AIMessage string "tool_call list"
  | ToolMessage string string string
  | SystemMessage string

fun content :: "message \<Rightarrow> string" where
  "content (HumanMessage c) = c"
| "content (AIMessage c tcs) = c"
| "content (ToolMessage c cid n) = c"
| "content (SystemMessage c) = c"

fun tool_calls :: "message \<Rightarrow> tool_call list" where
  "tool_calls (AIMessage c tcs) = tcs"
| "tool_calls m = []"

fun msg_type :: "message \<Rightarrow> string" where
  "msg_type (HumanMessage c) = ''human''"
| "msg_type (AIMessage c tcs) = ''ai''"
| "msg_type (ToolMessage c cid n) = ''tool''"
| "msg_type (SystemMessage c) = ''system''"

fun is_tool_message :: "message \<Rightarrow> bool" where
  "is_tool_message (ToolMessage c cid n) = True"
| "is_tool_message m = False"

record agent_state =
  messages :: "message list"
  current_intent :: "string slot"
  language_detected :: "string slot"
  draft_response :: "json slot"
  route_lock :: "string slot"
  pending_intents :: "string list slot"
  user_id :: "string slot"
  user_role :: "string slot"
  terminal_id :: "string slot"
  carrier_id :: "string slot"
  thread_id :: "string slot"
  ui_payload :: "json slot"

text \<open>
  \<open>Command(update=..., goto=...)\<close>.  A key that the update dictionary does not hold is
  \<open>Absent\<close>; \<open>u_messages\<close> is the list handed to the \<open>add_messages\<close> reducer.
\<close>

record command =
  u_messages :: "message list"
  u_current_intent :: "string slot"
  u_language_detected :: "string slot"
  u_draft_response :: "json slot"
  u_route_lock :: "string slot"
  u_pending_intents :: "string list slot"
  u_ui_payload :: "json slot"
  goto :: string

definition no_update :: command where
  "no_update = \<lparr> u_messages = [], u_current_intent = Absent, u_language_detected = Absent,
     u_draft_response = Absent, u_route_lock = Absent, u_pending_intents = Absent,
     u_ui_payload = Absent, goto = [] \<rparr>"

fun write_slot :: "'a slot \<Rightarrow> 'a slot \<Rightarrow> 'a slot" where
  "write_slot old Absent = old"
| "write_slot old new = new"

text \<open>The state after a node's command: every key of the update replaces the stored
  value, \<open>messages\<close> is appended to.\<close>

definition apply_update :: "agent_state \<Rightarrow> command \<Rightarrow> agent_state" where
  "apply_update s c = s\<lparr>
     messages := messages s @ u_messages c,
     current_intent := write_slot (current_intent s) (u_current_intent c),
     language_detected := write_slot (language_detected s) (u_language_detected c),
     draft_response := write_slot (draft_response s) (u_draft_response c),
     route_lock := write_slot (route_lock s) (u_route_lock c),
     pending_intents := write_slot (pending_intents s) (u_pending_intents c),
     ui_payload := write_slot (ui_payload s) (u_ui_payload c) \<rparr>"

section \<open>Guardian: permission table\<close>

record role_config =
  allowed_intents :: "string list"
  can_view_capacity :: bool
  can_view_history :: bool
  label :: string

definition ROLE_PERMISSIONS :: "(string \<times> role_config) list" where
  "ROLE_PERMISSIONS =
    [(''CARRIER'', \<lparr> allowed_intents = [''booking'', ''capacity'', ''general''],
        can_view_capacity = True, can_view_history = True, label = ''Truck Carrier'' \<rparr>),
     (''OPERATOR'', \<lparr> allowed_intents = [''booking'', ''capacity'', ''general''],
        can_view_capacity = True, can_view_history = True, label = ''Terminal Operator'' \<rparr>),
     (''ADMIN'', \<lparr> allowed_intents = [''booking'', ''capacity'', ''general''],
        can_view_capacity = True, can_view_history = True, label = ''Port Administrator'' \<rparr>)]"

text \<open>\<open>ROLE_PERMISSIONS.get(user_role, default)\<close>; a role that is \<open>None\<close> is no key.\<close>

definition role_lookup :: "string option \<Rightarrow> role_config option" where
  "role_lookup r = (case r of None \<Rightarrow> None | Some k \<Rightarrow> map_of ROLE_PERMISSIONS k)"

definition check_permission :: "string option \<Rightarrow> string option \<Rightarrow> bool" where
  "check_permission role intent =
     (let role_config = (case role_lookup role of
                           None \<Rightarrow> the (map_of ROLE_PERMISSIONS ''CARRIER'')
                         | Some cfg \<Rightarrow> cfg)
      in case intent of None \<Rightarrow> False | Some i \<Rightarrow> i \<in> set (allowed_intents role_config))"


section \<open>External collaborators\<close>

type_synonym args = "(string \<times> json) list"
type_synonym invocation = "string \<times> args"

text \<open>
  The language model, the tools, \<open>json.loads\<close>, \<open>repr\<close>, \<open>str.upper\<close>, \<open>str.strip\<close> and
  the prompt templates are parameters of the nodes; what they return is arbitrary.
  \<^item> \<open>llm_reply\<close> is the content and the tool calls of the message that
    \<open>get_llm("medium").invoke(msgs)\<close> returns, \<open>llm_tools_reply names msgs\<close> those of
    \<open>llm.bind_tools(tools).invoke(msgs)\<close> with the names of the bound tools.  The model
    is taken to answer.
  \<^item> \<open>tool.invoke(args)\<close> checks the arguments against the tool's signature, raises
    when they do not fit, and runs the tool's function otherwise, which may raise as
    well.  \<open>tool_raises name args\<close> says whether the invocation raises, and then gives
    the invocations of other tools made before and the error (for arguments that do
    not fit: no invocation, and a \<open>ValidationError\<close>).  \<open>tool_body name args\<close> is the
    list of invocations of other tools that the function makes, and what it returns.
\<close>

record env =
  llm_reply :: "message list \<Rightarrow> string \<times> tool_call list"
  llm_tools_reply :: "string list \<Rightarrow> message list \<Rightarrow> string \<times> tool_call list"
  tool_raises :: "string \<Rightarrow> args \<Rightarrow> (invocation list \<times> error) option"
  tool_body :: "string \<Rightarrow> args \<Rightarrow> invocation list \<times> json"
  json_loads :: "string \<Rightarrow> json option"
  py_repr :: "json \<Rightarrow> string"
  py_upper :: "string \<Rightarrow> string"
  py_strip :: "string \<Rightarrow> string"
  orchestrator_prompt :: "string \<Rightarrow> string option \<Rightarrow> string \<Rightarrow> string"
  booking_prompt :: "string option \<Rightarrow> json \<Rightarrow> string \<Rightarrow> json \<Rightarrow> string"
  capacity_prompt :: "json \<Rightarrow> string option \<Rightarrow> string \<Rightarrow> string"
  guardian_prompt_text :: "json \<Rightarrow> string \<Rightarrow> string option \<Rightarrow> string option \<Rightarrow> string"
  guardian_form_prompt_text ::
    "json \<Rightarrow> string \<Rightarrow> string option \<Rightarrow> string option \<Rightarrow> json \<Rightarrow> json \<Rightarrow> string"
  resolve_terminal_id_for_user :: "string \<Rightarrow> string option"
  resolve_carrier_id_for_user :: "string \<Rightarrow> string option"

text \<open>The model answers with an AI message.\<close>

definition llm_invoke :: "env \<Rightarrow> message list \<Rightarrow> message" where
  "llm_invoke env msgs = AIMessage (fst (llm_reply env msgs)) (snd (llm_reply env msgs))"

definition llm_tools_invoke :: "env \<Rightarrow> string list \<Rightarrow> message list \<Rightarrow> message" where
  "llm_tools_invoke env names msgs =
     AIMessage (fst (llm_tools_reply env names msgs)) (snd (llm_tools_reply env names msgs))"

text \<open>
  \<open>tool.invoke(args)\<close> with arguments that come from the model: the invocations made
  (this one first, then those the tool makes itself), and the result or the error.
\<close>

definition invoke :: "env \<Rightarrow> string \<Rightarrow> args \<Rightarrow> invocation list \<times> (error + json)" where
  "invoke env name a =
     (case tool_raises env name a of
        Some (nested, e) \<Rightarrow> ((name, a) # nested, Inl e)
      | None \<Rightarrow> ((name, a) # fst (tool_body env name a), Inr (snd (tool_body env name a))))"

text \<open>
  \<open>tool.invoke(args)\<close> with arguments that the calling code writes itself, namely
  \<open>get_terminals_map.invoke({})\<close> and \<open>get_terminal_schedule.invoke({"date": "TODAY"})\<close>:
  these fit the signatures, and both functions catch the failures of their backend
  calls and return a text or an empty map instead; the invocation is taken to return.
\<close>

definition invoke_own :: "env \<Rightarrow> string \<Rightarrow> args \<Rightarrow> invocation list \<times> json" where
  "invoke_own env name a = ((name, a) # fst (tool_body env name a), snd (tool_body env name a))"

text \<open>\<open>str(x)\<close>: a string is itself, anything else prints as its \<open>repr\<close>.\<close>

definition py_str :: "env \<Rightarrow> json \<Rightarrow> string" where
  "py_str env j = (case j of JStr s \<Rightarrow> s | _ \<Rightarrow> py_repr env j)"

section \<open>Guardian node\<close>

text \<open>Both prompt builders of the Guardian evaluate \<open>language.lower()\<close>, which raises
  on \<open>None\<close>; the text they return is a template.  The builder for a form first
  fetches the terminals map.\<close>

definition get_system_prompt_guardian ::
  "env \<Rightarrow> json \<Rightarrow> string option \<Rightarrow> string option \<Rightarrow> string option \<Rightarrow> error + string" where
  "get_system_prompt_guardian env draft language role intent =
     (case language of
        None \<Rightarrow> Inl AttributeError
      | Some l \<Rightarrow> Inr (guardian_prompt_text env draft l role intent))"

definition get_system_prompt_form_generation ::
  "env \<Rightarrow> json \<Rightarrow> string option \<Rightarrow> string option \<Rightarrow> string option \<Rightarrow> json
     \<Rightarrow> invocation list \<times> (error + string)" where
  "get_system_prompt_form_generation env draft language role intent ui =
     (case invoke_own env ''get_terminals_map'' [] of
        (invoked, terminals_map) \<Rightarrow>
          (invoked,
           case language of
             None \<Rightarrow> Inl AttributeError
           | Some l \<Rightarrow> Inr (guardian_form_prompt_text env draft l role intent ui terminals_map)))"

definition role_label_of :: "string option \<Rightarrow> string" where
  "role_label_of role = (case role_lookup role of None \<Rightarrow> ''User'' | Some cfg \<Rightarrow> label cfg)"

definition blocked_msg :: "string option \<Rightarrow> string option \<Rightarrow> string" where
  "blocked_msg role intent =
     ''Access Denied: As a '' @ role_label_of role @
     '', you do not have permission to access '' @ fmt_opt intent @
     '' data. Please contact your terminal operator for assistance.''"

definition fallback_draft :: json where
  "fallback_draft = JStr ''I'm sorry, I couldn't process your request. Could you rephrase that?''"

text \<open>\<open>state.get("pending_intents", []) or []\<close>.\<close>

definition pending_of :: "agent_state \<Rightarrow> string list" where
  "pending_of s = (case dict_get (pending_intents s) (Some []) of None \<Rightarrow> [] | Some p \<Rightarrow> p)"

definition valid_targets :: "string set" where
  "valid_targets = {''BOOKING'', ''CAPACITY''}"

text \<open>Steps E to G of the Guardian, after the final text has been produced.\<close>

definition guardian_finish :: "agent_state \<Rightarrow> json option \<Rightarrow> string \<Rightarrow> command" where
  "guardian_finish s ui final_content =
     (let lock = dict_get (route_lock s) None;
          update = no_update \<lparr>
            u_messages := [AIMessage final_content []],
            u_draft_response := Null,
            u_route_lock := to_slot lock,
            u_ui_payload := (if truthy_json ui then to_slot ui else Null) \<rparr>;
          pending = pending_of s
      in case pending of
           next_intent # remaining \<Rightarrow>
             if \<not> truthy_str lock then
               if next_intent \<in> valid_targets then
                 update \<lparr> u_pending_intents := Val remaining,
                          u_current_intent := Val (lower next_intent),
                          goto := next_intent \<rparr>
               else update \<lparr> u_pending_intents := Val remaining, goto := ''__end__'' \<rparr>
             else update \<lparr> goto := ''__end__'' \<rparr>
         | [] \<Rightarrow> update \<lparr> goto := ''__end__'' \<rparr>)"

text \<open>The Guardian with the tool invocations it makes (the terminals map, when it
  builds the prompt for a form).\<close>

definition guardian_trace :: "env \<Rightarrow> agent_state \<Rightarrow> invocation list \<times> (error + command)" where
  "guardian_trace env s =
     (let draft = dict_get (draft_response s) None;
          intent = dict_get (current_intent s) (Some ''general'');
          language = dict_get (language_detected s) (Some ''English'');
          role = dict_get (user_role s) (Some ''CARRIER'');
          ui = dict_get (ui_payload s) None
      in if \<not> check_permission role intent then
           ([], Inr (no_update \<lparr> u_messages := [AIMessage (blocked_msg role intent) []],
                       u_draft_response := Null, u_ui_payload := Null, goto := ''__end__'' \<rparr>))
         else
           let draft' = (case draft of
                           Some d \<Rightarrow> if truthy d then d else fallback_draft
                         | None \<Rightarrow> fallback_draft);
               built = (case ui of
                          Some p \<Rightarrow> if truthy p
                            then get_system_prompt_form_generation env draft' language role intent p
                            else ([], get_system_prompt_guardian env draft' language role intent)
                        | None \<Rightarrow> ([], get_system_prompt_guardian env draft' language role intent))
           in (fst built,
               case snd built of
                 Inl e \<Rightarrow> Inl e
               | Inr system_prompt \<Rightarrow>
                   Inr (guardian_finish s ui
                          (py_strip env (content (llm_invoke env [SystemMessage system_prompt]))))))"

definition guardian_node :: "env \<Rightarrow> agent_state \<Rightarrow> error + command" where
  "guardian_node env s = snd (guardian_trace env s)"

section \<open>Orchestrator node\<close>

record classification =
  cls_intent :: string
  cls_language :: string
  cls_intents :: "json option"

text \<open>\<open>parsed.get(key, default).strip()\<close>: a value that is no string has no \<open>strip\<close>.\<close>

definition get_stripped :: "env \<Rightarrow> (string \<times> json) list \<Rightarrow> string \<Rightarrow> string \<Rightarrow> error + string" where
  "get_stripped env kv key dflt =
     (case map_of kv key of
        None \<Rightarrow> Inr (py_strip env dflt)
      | Some (JStr v) \<Rightarrow> Inr (py_strip env v)
      | Some _ \<Rightarrow> Inl AttributeError)"

definition classify_intent_and_language ::
  "env \<Rightarrow> string \<Rightarrow> string \<Rightarrow> string option \<Rightarrow> string \<Rightarrow> error + classification" where
  "classify_intent_and_language env user_msg history_str active_route previous_intent =
     (let system_prompt = orchestrator_prompt env history_str active_route previous_intent;
          response = llm_invoke env [SystemMessage system_prompt, HumanMessage user_msg];
          raw = py_strip env (content response)
      in case json_loads env raw of
           None \<Rightarrow> Inr \<lparr> cls_intent = py_upper env raw, cls_language = ''English'', cls_intents = None \<rparr>
         | Some (JObj kv) \<Rightarrow>
             (case get_stripped env kv ''intent'' ''CHITCHAT'' of
                Inl e \<Rightarrow> Inl e
              | Inr i \<Rightarrow>
                  (case get_stripped env kv ''language'' ''English'' of
                     Inl e \<Rightarrow> Inl e
                   | Inr l \<Rightarrow> Inr \<lparr> cls_intent = py_upper env i, cls_language = l,
                                    cls_intents = map_of kv ''intents'' \<rparr>))
         | Some _ \<Rightarrow> Inl AttributeError)"

text \<open>What a \<open>for\<close> over a JSON value visits: the elements of a list, the characters of
  a string, the keys of a dictionary; anything else is not iterable.\<close>

fun iter_items :: "json \<Rightarrow> error + json list" where
  "iter_items (JArr xs) = Inr xs"
| "iter_items (JStr s) = Inr (map (\<lambda>c. JStr [c]) s)"
| "iter_items (JObj kv) = Inr (map (\<lambda>p. JStr (fst p)) kv)"
| "iter_items j = Inl TypeError"

text \<open>The comprehension
  \<open>[i.strip().upper() for i in intents_list if i.strip().upper() in ("BOOKING", "CAPACITY")]\<close>.\<close>

fun normalize_intents :: "env \<Rightarrow> json list \<Rightarrow> error + string list" where
  "normalize_intents env [] = Inr []"
| "normalize_intents env (JStr i # rest) =
     (case normalize_intents env rest of
        Inl e \<Rightarrow> Inl e
      | Inr r \<Rightarrow> Inr (if py_upper env (py_strip env i) \<in> {''BOOKING'', ''CAPACITY''}
                       then py_upper env (py_strip env i) # r else r))"
| "normalize_intents env (j # rest) = Inl AttributeError"

definition multi_intents :: "env \<Rightarrow> classification \<Rightarrow> error + string list" where
  "multi_intents env c =
     (case iter_items (case cls_intents c of
                         None \<Rightarrow> JArr [JStr ''CAPACITY'', JStr ''BOOKING'']
                       | Some j \<Rightarrow> j) of
        Inl e \<Rightarrow> Inl e
      | Inr items \<Rightarrow>
          (case normalize_intents env items of
             Inl e \<Rightarrow> Inl e
           | Inr intents_list \<Rightarrow>
               Inr (if length intents_list < 2 then [''CAPACITY'', ''BOOKING''] else intents_list)))"

text \<open>Python's \<open>strip\<close> and \<open>upper\<close> leave the two specialist names as they are.\<close>

definition keeps_names :: "env \<Rightarrow> bool" where
  "keeps_names env \<longleftrightarrow>
     py_upper env (py_strip env ''BOOKING'') = ''BOOKING''
     \<and> py_upper env (py_strip env ''CAPACITY'') = ''CAPACITY''"

definition em_dash :: string where
  "em_dash = [CHR 0xE2, CHR 0x80, CHR 0x94]"

definition help_text :: "string option \<Rightarrow> string" where
  "help_text role = join ''\<newline>''
     ([''I'm the **Port Logistics Assistant**. Here's what I can help you with:'', '''']
      @ (if role = Some ''ADMIN'' then
           [''- **Bookings** '' @ em_dash @ '' View all bookings across every terminal, search by carrier, status, or terminal, and manage booking operations.'',
            ''- **Capacity** '' @ em_dash @ '' Check real-time capacity, slot availability, and utilization for any terminal on any date.'',
            ''- **Terminals** '' @ em_dash @ '' Get an overview of all terminals in the system.'']
         else if role = Some ''OPERATOR'' then
           [''- **Bookings** '' @ em_dash @ '' View and manage bookings for your terminal.'',
            ''- **Capacity** '' @ em_dash @ '' Check slot availability and capacity status for your terminal on any date.'']
         else
           [''- **Bookings** '' @ em_dash @ '' View your bookings, check booking status, or start a new booking.'',
            ''- **Capacity** '' @ em_dash @ '' Check available time slots and terminal capacity for any date.''])
      @ ['''', ''Just ask me a question and I'll take care of the rest!''])"

definition out_of_scope_text :: string where
  "out_of_scope_text = ''I'm sorry, I can only help with port logistics '' @ em_dash @
     '' bookings, terminal capacity, and scheduling. I can't assist with that topic. Is there anything else I can help you with?''"

definition greeting_text :: string where
  "greeting_text = ''Hello! I'm the Port Logistics Assistant. I can help you with bookings, terminal capacity, and scheduling. What would you like to know?''"

definition valid_nodes :: "string set" where
  "valid_nodes = {''BOOKING'', ''CAPACITY''}"

text \<open>Step 4 of the orchestrator: routing on the classified intent.\<close>

definition route_fresh :: "env \<Rightarrow> agent_state \<Rightarrow> classification \<Rightarrow> error + command" where
  "route_fresh env s c =
     (let intent = cls_intent c; lang = cls_language c in
      if str_in ''MULTI'' intent then
        (case multi_intents env c of
           Inl e \<Rightarrow> Inl e
         | Inr [] \<Rightarrow> Inl IndexError
         | Inr (first_intent # remaining_intents) \<Rightarrow>
             Inr (no_update \<lparr> u_current_intent := Val (lower first_intent),
                    u_language_detected := Val lang,
                    u_pending_intents := Val remaining_intents,
                    goto := first_intent \<rparr>))
      else if str_in ''BOOKING'' intent then
        Inr (no_update \<lparr> u_current_intent := Val ''booking'', u_language_detected := Val lang,
               u_pending_intents := Val [], goto := ''BOOKING'' \<rparr>)
      else if str_in ''CAPACITY'' intent then
        Inr (no_update \<lparr> u_current_intent := Val ''capacity'', u_language_detected := Val lang,
               u_pending_intents := Val [], goto := ''CAPACITY'' \<rparr>)
      else if str_in ''HELP'' intent then
        Inr (no_update \<lparr>
               u_draft_response := Val (JStr (help_text (dict_get (user_role s) (Some ''CARRIER'')))),
               u_current_intent := Val ''general'', u_language_detected := Val lang,
               u_pending_intents := Val [], goto := ''GUARDIAN'' \<rparr>)
      else if str_in ''OUT_OF_SCOPE'' intent then
        Inr (no_update \<lparr> u_draft_response := Val (JStr out_of_scope_text),
               u_current_intent := Val ''general'', u_language_detected := Val lang,
               u_pending_intents := Val [], goto := ''GUARDIAN'' \<rparr>)
      else
        Inr (no_update \<lparr> u_draft_response := Val (JStr greeting_text),
               u_current_intent := Val ''general'', u_language_detected := Val lang,
               u_pending_intents := Val [], goto := ''GUARDIAN'' \<rparr>))"

text \<open>Steps 3 and 4: the queue is consulted before the fresh classification is followed.\<close>

definition route_classified :: "env \<Rightarrow> agent_state \<Rightarrow> classification \<Rightarrow> error + command" where
  "route_classified env s c =
     (case pending_of s of
        next_intent # remaining \<Rightarrow>
          if cls_intent c \<notin> {''MULTI'', ''BOOKING'', ''CAPACITY'', ''CHITCHAT''} then
            if next_intent \<in> valid_nodes
            then Inr (no_update \<lparr> u_current_intent := Val (lower next_intent),
                        u_language_detected := Val (cls_language c),
                        u_pending_intents := Val remaining,
                        goto := next_intent \<rparr>)
            else route_fresh env s c
          else route_fresh env s c
      | [] \<Rightarrow> route_fresh env s c)"

definition history_of :: "env \<Rightarrow> message list \<Rightarrow> string" where
  "history_of env ms = join ''\<newline>''
     (map (\<lambda>m. py_upper env (msg_type m) @ '': '' @ content m) (drop (length ms - 5) ms))"

definition active_route_of :: "agent_state \<Rightarrow> string option" where
  "active_route_of s = dict_get (route_lock s) (Some ''NONE'')"

definition previous_intent_of :: "agent_state \<Rightarrow> string" where
  "previous_intent_of s =
     (case dict_get (current_intent s) (Some ''NONE'') of
        Some p \<Rightarrow> if p \<noteq> [] then p else ''NONE''
      | None \<Rightarrow> ''NONE'')"

definition orchestrator_node :: "env \<Rightarrow> agent_state \<Rightarrow> error + command" where
  "orchestrator_node env s =
     (if messages s = [] then Inl IndexError
      else
        case classify_intent_and_language env (content (last (messages s)))
               (history_of env (messages s)) (active_route_of s) (previous_intent_of s) of
          Inl e \<Rightarrow> Inl e
        | Inr c \<Rightarrow> route_classified env s c)"

section \<open>Specialist handlers\<close>

record agent_setup =
  tools_to_bind :: "string list"
  system_prompt :: string
  prefetched :: "invocation list"

record tool_outcome =
  t_result :: json
  t_ui_signal :: "json option"
  t_needs_followup :: json
  t_booking_text :: string

text \<open>\<open>obj[key]\<close> on a tool result, and the state value a Python object is stored as.\<close>

fun subscript :: "json \<Rightarrow> string \<Rightarrow> error + json" where
  "subscript (JObj kv) k = (case map_of kv k of None \<Rightarrow> Inl KeyError | Some v \<Rightarrow> Inr v)"
| "subscript j k = Inl TypeError"

definition json_slot :: "json \<Rightarrow> json slot" where
  "json_slot v = (if v = JNull then Null else Val v)"

definition opt_json :: "string option \<Rightarrow> json" where
  "opt_json x = (case x of None \<Rightarrow> JNull | Some v \<Rightarrow> JStr v)"

definition plain_outcome :: "json \<Rightarrow> tool_outcome" where
  "plain_outcome r = \<lparr> t_result = r, t_ui_signal = None, t_needs_followup = JBool False,
                       t_booking_text = [] \<rparr>"

text \<open>A branch of the form \<open>result = tool.invoke(args)\<close>: an error of the invocation
  leaves the handler.\<close>

definition run_tool :: "env \<Rightarrow> string \<Rightarrow> args \<Rightarrow> invocation list \<times> (error + tool_outcome)" where
  "run_tool env name a =
     (case invoke env name a of
        (invoked, Inl e) \<Rightarrow> (invoked, Inl e)
      | (invoked, Inr r) \<Rightarrow> (invoked, Inr (plain_outcome r)))"

text \<open>The first model call of a handler: the system prompt, then the history.\<close>

definition first_response :: "env \<Rightarrow> agent_setup \<Rightarrow> agent_state \<Rightarrow> message" where
  "first_response env st s =
     llm_tools_invoke env (tools_to_bind st) ([SystemMessage (system_prompt st)] @ messages s)"

subsection \<open>Booking handler\<close>

text \<open>Part B of \<open>booking_agent_node\<close>: the role decides the bound tools and the prompt;
  a role that is none of the three literals leaves both empty.\<close>

definition booking_setup :: "env \<Rightarrow> agent_state \<Rightarrow> agent_setup" where
  "booking_setup env s =
     (let role = dict_get (user_role s) (Some ''CARRIER'') in
      if role = Some ''ADMIN'' then
        (case invoke_own env ''get_terminal_schedule'' [(''date'', JStr ''TODAY'')] of
           (log1, todays_data) \<Rightarrow>
             (case invoke_own env ''get_terminals_map'' [] of
                (log2, terminals_map) \<Rightarrow>
                  \<lparr> tools_to_bind = [''get_all_bookings'', ''get_bookings_by_terminal_id'',
                      ''get_capacity_by_terminal_id'', ''get_terminal_schedule'',
                      ''communicate_with_user''],
                    system_prompt = booking_prompt env role todays_data [] terminals_map,
                    prefetched = log1 @ log2 \<rparr>))
      else if role = Some ''OPERATOR'' then
        (let tid = dict_get (terminal_id s) None;
             operator_terminal_info =
               (if truthy_str tid then ''YOUR_TERMINAL_ID: '' @ fmt_opt tid
                else ''No terminal assigned'')
         in case invoke_own env ''get_terminal_schedule'' [(''date'', JStr ''TODAY'')] of
              (log1, todays_data) \<Rightarrow>
                (case invoke_own env ''get_terminals_map'' [] of
                   (log2, terminals_map) \<Rightarrow>
                     \<lparr> tools_to_bind = [''get_bookings_by_terminal_id'',
                         ''get_capacity_by_terminal_id'', ''get_terminal_schedule'',
                         ''communicate_with_user''],
                       system_prompt = booking_prompt env role todays_data
                                         operator_terminal_info terminals_map,
                       prefetched = log1 @ log2 \<rparr>))
      else if role = Some ''CARRIER'' then
        (case invoke_own env ''get_terminals_map'' [] of
           (log2, terminals_map) \<Rightarrow>
             \<lparr> tools_to_bind = [''prepare_booking_form'', ''communicate_with_user'',
                 ''get_bookings_by_user''],
               system_prompt = booking_prompt env role (JStr []) [] terminals_map,
               prefetched = log2 \<rparr>)
      else \<lparr> tools_to_bind = [], system_prompt = [], prefetched = [] \<rparr>)"

definition bullet :: string where
  "bullet = [CHR 0xE2, CHR 0x80, CHR 0xA2]"

definition prefill_get :: "env \<Rightarrow> args \<Rightarrow> string \<Rightarrow> string" where
  "prefill_get env prefill k = (case map_of prefill k of None \<Rightarrow> ''N/A'' | Some v \<Rightarrow> py_str env v)"

definition booking_text_of :: "env \<Rightarrow> args \<Rightarrow> string" where
  "booking_text_of env prefill =
     ''I've prepared a booking form for you:\<newline>'' @ bullet @ '' Date: '' @ prefill_get env prefill ''date''
     @ ''\<newline>'' @ bullet @ '' Time: '' @ prefill_get env prefill ''time''
     @ ''\<newline>'' @ bullet @ '' Terminal: '' @ prefill_get env prefill ''terminal''
     @ ''\<newline>Please review and confirm in the form below.''"

text \<open>The arguments of \<open>get_bookings_by_user\<close> after the handler has written the
  identity of the caller into them.\<close>

definition scoped_args :: "agent_state \<Rightarrow> args \<Rightarrow> args" where
  "scoped_args s a =
     (let a1 = AList.update ''user_id'' (opt_json (dict_get (user_id s) (Some ''guest''))) a;
          a2 = AList.update ''user_role'' (opt_json (dict_get (user_role s) (Some ''CARRIER''))) a1;
          cid = dict_get (carrier_id s) None
      in if truthy_str cid then AList.update ''carrier_id'' (opt_json cid) a2 else a2)"

text \<open>
  The handler writes those arguments into \<open>call["args"]\<close>, the dictionary that the
  model's message holds: from then on the message carries the rewritten call.
\<close>

definition scoped_call :: "agent_state \<Rightarrow> tool_call \<Rightarrow> tool_call" where
  "scoped_call s call =
     (if tc_name call = ''get_bookings_by_user''
      then ToolCall (tc_name call) (scoped_args s (tc_args call)) (tc_id call)
      else call)"

fun with_first_call :: "message \<Rightarrow> tool_call \<Rightarrow> message" where
  "with_first_call (AIMessage c (x # xs)) call = AIMessage c (call # xs)"
| "with_first_call m call = m"


text \<open>What the handler does with the text the form tool returns.\<close>

definition parse_form :: "env \<Rightarrow> json \<Rightarrow> error + tool_outcome" where
  "parse_form env result =
     (case result of
        JStr r \<Rightarrow>
          (case json_loads env r of
             None \<Rightarrow> Inl JSONDecodeError
           | Some (JObj kv) \<Rightarrow>
               (case (case map_of kv ''prefill'' of None \<Rightarrow> JObj [] | Some v \<Rightarrow> v) of
                  JObj prefill \<Rightarrow>
                    Inr \<lparr> t_result = JStr r, t_ui_signal = Some (JObj kv),
                          t_needs_followup = JBool False,
                          t_booking_text = booking_text_of env prefill \<rparr>
                | _ \<Rightarrow> Inl AttributeError)
           | Some _ \<Rightarrow> Inl AttributeError)
      | _ \<Rightarrow> Inl TypeError)"

text \<open>Part D, the \<open>if\<close>/\<open>elif\<close> chain on the tool name: the tool invocations made and
  what the chain leaves in \<open>result\<close>, \<open>ui_signal\<close>, \<open>needs_followup\<close>, \<open>booking_text\<close>.\<close>

definition booking_execute ::
  "env \<Rightarrow> agent_state \<Rightarrow> tool_call \<Rightarrow> invocation list \<times> (error + tool_outcome)" where
  "booking_execute env s call =
     (let t_name = tc_name call; a = tc_args call in
      if t_name = ''prepare_booking_form'' then
        (case invoke env ''prepare_booking_form'' a of
           (invoked, Inl e) \<Rightarrow> (invoked, Inl e)
         | (invoked, Inr result) \<Rightarrow> (invoked, parse_form env result))
      else if t_name = ''get_terminal_schedule'' then run_tool env ''get_terminal_schedule'' a
      else if t_name = ''communicate_with_user'' then
        (case run_tool env ''communicate_with_user'' a of
           (invoked, Inl e) \<Rightarrow> (invoked, Inl e)
         | (invoked, Inr out) \<Rightarrow>
             (invoked,
              Inr (out \<lparr> t_needs_followup :=
                     (case map_of a ''needs_followup'' of None \<Rightarrow> JBool False | Some v \<Rightarrow> v) \<rparr>)))
      else if t_name = ''get_bookings_by_user'' then
        run_tool env ''get_bookings_by_user'' (scoped_args s a)
      else if t_name = ''get_bookings_by_terminal_id'' then
        run_tool env ''get_bookings_by_terminal_id'' a
      else if t_name = ''get_capacity_by_terminal_id'' then
        run_tool env ''get_capacity_by_terminal_id'' a
      else if t_name = ''get_all_bookings'' then run_tool env ''get_all_bookings'' a
      else ([], Inr (plain_outcome (JStr (''Unknown tool: '' @ t_name)))))"

text \<open>What follows the chain: the tool message, then one of the three returns.\<close>

definition booking_after_tool ::
  "env \<Rightarrow> agent_state \<Rightarrow> agent_setup \<Rightarrow> message \<Rightarrow> tool_call \<Rightarrow> tool_outcome \<Rightarrow> error + command" where
  "booking_after_tool env s st response call out =
     (let tool_outputs = [ToolMessage (py_str env (t_result out)) (tc_id call) (tc_name call)] in
      if truthy_json (t_ui_signal out) then
        Inr (no_update \<lparr> u_messages := [response] @ tool_outputs,
               u_draft_response := Val (JStr (t_booking_text out)),
               u_ui_payload := to_slot (t_ui_signal out),
               u_route_lock := Null,
               goto := ''GUARDIAN'' \<rparr>)
      else if truthy (t_needs_followup out) then
        (case subscript (t_result out) ''message'' of
           Inl e \<Rightarrow> Inl e
         | Inr m \<Rightarrow>
             Inr (no_update \<lparr> u_messages := [response] @ tool_outputs,
                    u_draft_response := json_slot m,
                    u_route_lock := Val ''BOOKING'',
                    goto := ''GUARDIAN'' \<rparr>))
      else
        (let final_response = llm_tools_invoke env (tools_to_bind st)
               ([SystemMessage (system_prompt st)] @ messages s @ [response] @ tool_outputs)
         in Inr (no_update \<lparr> u_messages := [response] @ tool_outputs @ [final_response],
                   u_draft_response := Val (JStr (content final_response)),
                   u_route_lock := Null,
                   goto := ''GUARDIAN'' \<rparr>)))"

text \<open>The handler with the list of tool invocations it made, in order.\<close>

definition booking_agent_trace ::
  "env \<Rightarrow> agent_state \<Rightarrow> invocation list \<times> (error + command)" where
  "booking_agent_trace env s =
     (if messages s = [] then ([], Inl IndexError)
      else
        let st = booking_setup env s;
            response = first_response env st s
        in case tool_calls response of
             call # others \<Rightarrow>
               (case booking_execute env s call of
                  (invoked, Inl e) \<Rightarrow> (prefetched st @ invoked, Inl e)
                | (invoked, Inr out) \<Rightarrow>
                    (prefetched st @ invoked,
                     booking_after_tool env s st
                       (with_first_call response (scoped_call s call)) call out))
           | [] \<Rightarrow>
               (prefetched st,
                Inr (no_update \<lparr> u_messages := [response],
                       u_draft_response := Val (JStr (content response)),
                       u_route_lock := Null,
                       goto := ''GUARDIAN'' \<rparr>)))"

definition booking_agent_node :: "env \<Rightarrow> agent_state \<Rightarrow> error + command" where
  "booking_agent_node env s = snd (booking_agent_trace env s)"

subsection \<open>Capacity handler\<close>

text \<open>The handler fetches the terminals map and reads its keys, which a value that is
  no dictionary does not have.\<close>

definition capacity_setup :: "env \<Rightarrow> agent_state \<Rightarrow> error + agent_setup" where
  "capacity_setup env s =
     (let role = dict_get (user_role s) (Some ''CARRIER'');
          fetched = invoke_own env ''get_terminals_map'' [];
          terminals_map = snd fetched;
          base_tools = [''check_availability'', ''get_terminal_details'',
                        ''communicate_with_user'', ''get_capacity_summary''];
          tid = dict_get (terminal_id s) None;
          operator_terminal_info =
            (if role = Some ''OPERATOR'' then
               (if truthy_str tid then ''Terminal ID: '' @ fmt_opt tid else ''No terminal assigned'')
             else []);
          tools = (if role = Some ''ADMIN'' \<or> role = Some ''OPERATOR''
                   then base_tools @ [''get_capacity_by_terminal_id''] else base_tools)
      in case terminals_map of
           JObj kv \<Rightarrow>
             Inr \<lparr> tools_to_bind = tools,
                   system_prompt = capacity_prompt env terminals_map role operator_terminal_info,
                   prefetched = fst fetched \<rparr>
         | _ \<Rightarrow> Inl AttributeError)"


definition capacity_execute ::
  "env \<Rightarrow> tool_call \<Rightarrow> invocation list \<times> (error + tool_outcome)" where
  "capacity_execute env call =
     (let t_name = tc_name call; a = tc_args call in
      if t_name = ''get_terminal_details'' then run_tool env ''get_terminal_details'' a
      else if t_name = ''get_capacity_summary'' then run_tool env ''get_capacity_summary'' a
      else if t_name = ''communicate_with_user'' then
        (case run_tool env ''communicate_with_user'' a of
           (invoked, Inl e) \<Rightarrow> (invoked, Inl e)
         | (invoked, Inr out) \<Rightarrow>
             (invoked,
              Inr (out \<lparr> t_needs_followup :=
                     (case map_of a ''needs_followup'' of None \<Rightarrow> JBool False | Some v \<Rightarrow> v) \<rparr>)))
      else if t_name = ''check_availability'' then run_tool env ''check_availability'' a
      else if t_name = ''get_capacity_by_terminal_id'' then
        run_tool env ''get_capacity_by_terminal_id'' a
      else ([], Inr (plain_outcome (JStr (''Unknown tool: '' @ t_name)))))"

definition capacity_after_tool ::
  "env \<Rightarrow> agent_state \<Rightarrow> agent_setup \<Rightarrow> message \<Rightarrow> tool_call \<Rightarrow> tool_outcome \<Rightarrow> error + command" where
  "capacity_after_tool env s st ai_msg call out =
     (let tool_outputs = [ToolMessage (py_str env (t_result out)) (tc_id call) (tc_name call)] in
      if truthy (t_needs_followup out) then
        (case subscript (t_result out) ''message'' of
           Inl e \<Rightarrow> Inl e
         | Inr m \<Rightarrow>
             Inr (no_update \<lparr> u_messages := [ai_msg] @ tool_outputs,
                    u_draft_response := json_slot m,
                    u_route_lock := Val ''CAPACITY'',
                    goto := ''GUARDIAN'' \<rparr>))
      else
        (let final_response = llm_tools_invoke env (tools_to_bind st)
               ([SystemMessage (system_prompt st)] @ messages s @ [ai_msg] @ tool_outputs)
         in Inr (no_update \<lparr> u_messages := [ai_msg] @ tool_outputs @ [final_response],
                   u_draft_response := Val (JStr (content final_response)),
                   u_route_lock := Null,
                   goto := ''GUARDIAN'' \<rparr>)))"

definition capacity_trace :: "env \<Rightarrow> agent_state \<Rightarrow> invocation list \<times> (error + command)" where
  "capacity_trace env s =
     (case capacity_setup env s of
        Inl e \<Rightarrow> (fst (invoke_own env ''get_terminals_map'' []), Inl e)
      | Inr st \<Rightarrow>
          (let ai_msg = first_response env st s
           in case tool_calls ai_msg of
                call # others \<Rightarrow>
                  (case capacity_execute env call of
                     (invoked, Inl e) \<Rightarrow> (prefetched st @ invoked, Inl e)
                   | (invoked, Inr out) \<Rightarrow>
                       (prefetched st @ invoked, capacity_after_tool env s st ai_msg call out))
              | [] \<Rightarrow>
                  (prefetched st,
                   Inr (no_update \<lparr> u_messages := [ai_msg],
                          u_draft_response := Val (JStr (content ai_msg)),
                          u_route_lock := Null,
                          goto := ''GUARDIAN'' \<rparr>))))"

definition capacity_node :: "env \<Rightarrow> agent_state \<Rightarrow> error + command" where
  "capacity_node env s = snd (capacity_trace env s)"

section \<open>The graph and one external turn\<close>

definition recursion_limit :: nat where
  "recursion_limit = 25"

definition run_node ::
  "env \<Rightarrow> string \<Rightarrow> agent_state \<Rightarrow> invocation list \<times> (error + command)" where
  "run_node env n s =
     (if n = ''ORCHESTRATOR'' then ([], orchestrator_node env s)
      else if n = ''BOOKING'' then booking_agent_trace env s
      else if n = ''CAPACITY'' then capacity_trace env s
      else if n = ''GUARDIAN'' then guardian_trace env s
      else ([], Inl KeyError))"

text \<open>The graph follows each command's \<open>goto\<close> until \<open>__end__\<close>.  The callers pass no
  recursion limit, so the framework's default of 25 node executions bounds a run; a
  run that needs more ends in \<open>GraphRecursionError\<close>.  The result carries the tool
  invocations of the whole run.\<close>

fun graph_run ::
  "env \<Rightarrow> nat \<Rightarrow> string \<Rightarrow> agent_state \<Rightarrow> invocation list \<times> (error + agent_state)" where
  "graph_run env 0 n s = (if n = ''__end__'' then ([], Inr s) else ([], Inl GraphRecursionError))"
| "graph_run env (Suc k) n s =
     (if n = ''__end__'' then ([], Inr s)
      else case run_node env n s of
             (invoked, Inl e) \<Rightarrow> (invoked, Inl e)
           | (invoked, Inr c) \<Rightarrow>
               (case graph_run env k (goto c) (apply_update s c) of
                  (later, r) \<Rightarrow> (invoked @ later, r)))"

record chat_request =
  req_message :: string
  req_user_id :: "string option"
  req_user_role :: "string option"

definition or_else :: "string option \<Rightarrow> string \<Rightarrow> string" where
  "or_else x d = (case x of None \<Rightarrow> d | Some v \<Rightarrow> if v = [] then d else v)"

definition empty_state :: agent_state where
  "empty_state = \<lparr> messages = [], current_intent = Absent, language_detected = Absent,
     draft_response = Absent, route_lock = Absent, pending_intents = Absent, user_id = Absent,
     user_role = Absent, terminal_id = Absent, carrier_id = Absent, thread_id = Absent,
     ui_payload = Absent \<rparr>"

text \<open>\<open>chat\<close> builds \<open>input_state\<close> and the graph writes it over the state stored for
  the thread: the new message is appended, the identity keys are replaced, every other
  key keeps what the previous turn left.\<close>

definition start_turn :: "env \<Rightarrow> agent_state \<Rightarrow> chat_request \<Rightarrow> string \<Rightarrow> agent_state" where
  "start_turn env stored req tid =
     (let role_u = py_upper env (or_else (req_user_role req) []);
          has_id = truthy_str (req_user_id req);
          terminal = (if role_u = ''OPERATOR'' \<and> has_id
                      then resolve_terminal_id_for_user env (fmt_opt (req_user_id req)) else None);
          carrier = (if role_u = ''OPERATOR'' \<and> has_id then None
                     else if role_u = ''CARRIER'' \<and> has_id
                     then resolve_carrier_id_for_user env (fmt_opt (req_user_id req)) else None)
      in stored \<lparr> messages := messages stored @ [HumanMessage (req_message req)],
           user_id := Val (or_else (req_user_id req) ''guest''),
           user_role := Val (or_else (req_user_role req) ''CARRIER''),
           thread_id := Val tid,
           terminal_id := to_slot terminal,
           carrier_id := to_slot carrier \<rparr>)"

definition chat_turn ::
  "env \<Rightarrow> agent_state \<Rightarrow> chat_request \<Rightarrow> string \<Rightarrow> invocation list \<times> (error + agent_state)" where
  "chat_turn env stored req tid =
     graph_run env recursion_limit ''ORCHESTRATOR'' (start_turn env stored req tid)"

section \<open>Booking tools: date defaults\<close>

text \<open>Calendar dates as Python's \<open>datetime.date\<close> has them (proleptic Gregorian);
  \<open>add_days n\<close> is \<open>+ timedelta(days=n)\<close>, \<open>prev_day\<close> is \<open>- timedelta(days=1)\<close>.
  \<open>today\<close> is a parameter: the tool reads it from the clock.  Python's bounds on the
  year (1 to 9999, beyond which the addition raises) are not part of the model.\<close>

datatype date = Date (d_year: nat) (d_month: nat) (d_day: nat)

definition is_leap :: "nat \<Rightarrow> bool" where
  "is_leap y = (y mod 4 = 0 \<and> (y mod 100 \<noteq> 0 \<or> y mod 400 = 0))"

definition days_in_month :: "nat \<Rightarrow> nat \<Rightarrow> nat" where
  "days_in_month y m =
     (if m = 2 then (if is_leap y then 29 else 28)
      else if m = 4 \<or> m = 6 \<or> m = 9 \<or> m = 11 then 30 else 31)"

fun next_day :: "date \<Rightarrow> date" where
  "next_day (Date y m d) =
     (if d < days_in_month y m then Date y m (d + 1)
      else if m < 12 then Date y (m + 1) 1
      else Date (y + 1) 1 1)"

fun prev_day :: "date \<Rightarrow> date" where
  "prev_day (Date y m d) =
     (if 1 < d then Date y m (d - 1)
      else if 1 < m then Date y (m - 1) (days_in_month y (m - 1))
      else Date (y - 1) 12 31)"

fun add_days :: "nat \<Rightarrow> date \<Rightarrow> date" where
  "add_days 0 d = d"
| "add_days (Suc n) d = add_days n (next_day d)"

definition digit :: "nat \<Rightarrow> char" where
  "digit n = char_of (48 + n mod 10)"

text \<open>\<open>strftime("%Y-%m-%d")\<close> for years up to 9999.\<close>

fun strftime :: "date \<Rightarrow> string" where
  "strftime (Date y m d) =
     [digit (y div 1000), digit (y div 100), digit (y div 10), digit y, CHR ''-'',
      digit (m div 10), digit m, CHR ''-'', digit (d div 10), digit d]"

definition resolve_date :: "env \<Rightarrow> date \<Rightarrow> string option \<Rightarrow> string" where
  "resolve_date env today v =
     (let u = py_upper env (py_strip env (or_else v [])) in
      if u = ''TODAY'' \<or> u = [] then strftime today
      else if u = ''TOMORROW'' then strftime (add_days 1 today)
      else if u = ''YESTERDAY'' then strftime (prev_day today)
      else fmt_opt v)"

text \<open>The query parameters \<open>get_all_bookings\<close> sends to \<open>/api/bookings\<close>.\<close>

definition get_all_bookings_params ::
  "env \<Rightarrow> date \<Rightarrow> string option \<Rightarrow> string option \<Rightarrow> string option \<Rightarrow> string option \<Rightarrow> string option
     \<Rightarrow> (string \<times> string) list" where
  "get_all_bookings_params env today status tid cid start_date end_date =
     (let start = (if truthy_str start_date then resolve_date env today start_date
                   else strftime today);
          stop = (if truthy_str end_date then resolve_date env today end_date
                  else strftime (add_days 3 today));
          normalized_status = (if truthy_str status then Some (py_strip env (py_upper env (fmt_opt status))) else None)
      in [(''startDate'', start), (''endDate'', stop)]
         @ (if truthy_str normalized_status then [(''status'', fmt_opt normalized_status)] else [])
         @ (if truthy_str tid then [(''terminalId'', fmt_opt tid)] else [])
         @ (if truthy_str cid then [(''carrierId'', fmt_opt cid)] else []))"

section \<open>Scripted collaborators and states for concrete runs\<close>

definition booking_form :: json where
  "booking_form = JObj [(''ui_action'', JStr ''OPEN_BOOKING_FORM''),
     (''prefill'', JObj [(''date'', JStr ''2026-11-05''), (''time'', JStr ''10:00''),
        (''terminal'', JStr ''Terminal A''), (''terminal_id'', JStr ''t-a'')])]"

text \<open>Stand-ins for \<open>str.upper\<close> and \<open>str.strip\<close> that agree with Python on ASCII text.\<close>

definition ascii_upper_char :: "char \<Rightarrow> char" where
  "ascii_upper_char c =
     (let n = (of_char c :: nat) in if 97 \<le> n \<and> n \<le> 122 then char_of (n - 32) else c)"

definition ascii_upper :: "string \<Rightarrow> string" where
  "ascii_upper s = map ascii_upper_char s"

definition is_space :: "char \<Rightarrow> bool" where
  "is_space c =
     (let n = (of_char c :: nat) in n = 32 \<or> (9 \<le> n \<and> n \<le> 13) \<or> (28 \<le> n \<and> n \<le> 31))"

definition ascii_strip :: "string \<Rightarrow> string" where
  "ascii_strip s = rev (dropWhile is_space (rev (dropWhile is_space s)))"

text \<open>The parameters the tools declare without a default.\<close>

definition required_args :: "string \<Rightarrow> string list" where
  "required_args n =
     (if n = ''communicate_with_user'' then [''message'', ''needs_followup'']
      else if n = ''check_availability'' then [''terminal_id'', ''start_date'', ''end_date'']
      else if n = ''prepare_booking_form'' then [''date'', ''time'', ''terminal'']
      else if n = ''get_bookings_by_terminal_id'' \<or> n = ''get_capacity_by_terminal_id''
      then [''terminal_id'']
      else [])"

text \<open>A stub environment: the classifier answers \<open>cls u\<close> to the user text \<open>u\<close>, which
  \<open>json.loads\<close> parses to \<open>parsed\<close>; the tool-calling model answers \<open>agent msgs\<close>; a tool
  refuses arguments that lack one of its required parameters; the terminals map has one
  terminal; the form tool looks the map up and returns the text \<open>FORM\<close>, which parses
  to \<open>booking_form\<close>; \<open>communicate_with_user\<close> returns a dictionary with its message;
  every other tool returns the text \<open>No data available.\<close>\<close>

definition scripted_env ::
  "(string \<Rightarrow> string) \<Rightarrow> json option \<Rightarrow> (message list \<Rightarrow> string \<times> tool_call list) \<Rightarrow> env" where
  "scripted_env cls parsed agent =
     \<lparr> llm_reply = (\<lambda>ms. case ms of
                        [SystemMessage p, HumanMessage u] \<Rightarrow> (cls u, [])
                      | _ \<Rightarrow> (''Done.'', [])),
       llm_tools_reply = (\<lambda>names ms. agent ms),
       tool_raises = (\<lambda>n a. if list_all (\<lambda>k. map_of a k \<noteq> None) (required_args n)
                             then None else Some ([], ValidationError)),
       tool_body = (\<lambda>n a.
          if n = ''prepare_booking_form'' then ([(''get_terminals_map'', [])], JStr ''FORM'')
          else if n = ''get_terminals_map'' then ([], JObj [(''Terminal A'', JStr ''t-a'')])
          else if n = ''communicate_with_user''
          then ([], JObj [(''type'', JStr ''communication''),
                          (''message'', (case map_of a ''message'' of None \<Rightarrow> JNull | Some m \<Rightarrow> m))])
          else ([], JStr ''No data available.'')),
       json_loads = (\<lambda>r. if r = ''FORM'' then Some booking_form else parsed),
       py_repr = (\<lambda>j. ''{...}''),
       py_upper = ascii_upper,
       py_strip = ascii_strip,
       orchestrator_prompt = (\<lambda>h a p. ''You are the Router''),
       booking_prompt = (\<lambda>r t i m. ''You are the Booking Assistant''),
       capacity_prompt = (\<lambda>m r i. ''You are the Capacity Analyst''),
       guardian_prompt_text = (\<lambda>d l r i. ''You are the Response Formatter''),
       guardian_form_prompt_text = (\<lambda>m d l r i u. ''A booking form is being sent''),
       resolve_terminal_id_for_user = (\<lambda>u. Some ''t-a''),
       resolve_carrier_id_for_user = (\<lambda>u. Some ''carrier-1'') \<rparr>"

definition quiet_env :: env where
  "quiet_env = scripted_env (\<lambda>u. ''CHITCHAT'') None (\<lambda>ms. (''Noted.'', []))"

definition queued_state :: agent_state where
  "queued_state = empty_state \<lparr>
     messages := [HumanMessage ''show free slots and book one'', AIMessage ''Slots are free.'' []],
     current_intent := Val ''capacity'', language_detected := Val ''English'',
     draft_response := Val (JStr ''Slots are free.''), route_lock := Null,
     pending_intents := Val [''BOOKING'', ''CAPACITY''], user_role := Val ''CARRIER'' \<rparr>"

text \<open>The intents list as the specification words it: restricted to the two specialists,
  deduplicated, replaced by the default when fewer than two entries remain.\<close>

definition claimed_multi_intents :: "env \<Rightarrow> string list \<Rightarrow> string list" where
  "claimed_multi_intents env xs =
     (let valid = remdups (filter (\<lambda>i. i \<in> {''BOOKING'', ''CAPACITY''})
                             (map (\<lambda>i. py_upper env (py_strip env i)) xs))
      in if length valid < 2 then [''CAPACITY'', ''BOOKING''] else valid)"

definition multi_env :: "string list \<Rightarrow> env" where
  "multi_env xs = scripted_env (\<lambda>u. ''JSON'')
     (Some (JObj [(''intent'', JStr ''MULTI''), (''intents'', JArr (map JStr xs)),
                  (''language'', JStr ''French'')]))
     (\<lambda>ms. (''Noted.'', []))"

definition fresh_state :: agent_state where
  "fresh_state = empty_state \<lparr>
     messages := [HumanMessage ''show free slots and book one''],
     user_id := Val ''u1'', user_role := Val ''CARRIER'' \<rparr>"

definition locked_state :: agent_state where
  "locked_state = empty_state \<lparr>
     messages := [HumanMessage ''book at terminal B'', AIMessage ''Which date and time?'' [],
                  HumanMessage ''hello''],
     current_intent := Val ''booking'', language_detected := Val ''English'',
     draft_response := Null, route_lock := Val ''BOOKING'', pending_intents := Val [],
     user_id := Val ''u1'', user_role := Val ''CARRIER'' \<rparr>"

definition owing_state :: agent_state where
  "owing_state = locked_state \<lparr> current_intent := Val ''capacity'',
     route_lock := Val ''CAPACITY'', pending_intents := Val [''BOOKING'', ''CAPACITY''] \<rparr>"

definition help_env :: env where
  "help_env = scripted_env (\<lambda>u. ''HELP'') None (\<lambda>ms. (''Noted.'', []))"

definition booking_env :: env where
  "booking_env = scripted_env (\<lambda>u. ''BOOKING'') None (\<lambda>ms. (''Noted.'', []))"

text \<open>A tool-calling model that has not yet seen a tool result answers with the calls
  \<open>calls\<close>; once a tool result is in the history it answers with the text \<open>answer\<close>.\<close>

definition calling_env :: "tool_call list \<Rightarrow> string \<Rightarrow> env" where
  "calling_env calls answer = scripted_env (\<lambda>u. ''BOOKING'') None
     (\<lambda>ms. if list_ex is_tool_message ms then (answer, []) else ([], calls))"




definition admin_only_call :: "tool_call list" where
  "admin_only_call = [ToolCall ''get_all_bookings'' [] ''c7'']"

definition lowercase_request :: chat_request where
  "lowercase_request = \<lparr> req_message = ''show my bookings'', req_user_id = Some ''u1'',
                          req_user_role = Some ''carrier'' \<rparr>"

text \<open>A carrier's conversation: the first request is classified BOOKING and answered with
  a call of the form tool, a later \<open>thanks\<close> is classified CHITCHAT.\<close>

definition form_call :: tool_call where
  "form_call = ToolCall ''prepare_booking_form''
     [(''date'', JStr ''2026-11-05''), (''time'', JStr ''10:00''), (''terminal'', JStr ''Terminal A'')]
     ''c1''"

definition form_env :: env where
  "form_env = scripted_env (\<lambda>u. if u = ''thanks'' then ''CHITCHAT'' else ''BOOKING'') None
     (\<lambda>ms. ([], [form_call]))"

definition book_request :: chat_request where
  "book_request = \<lparr> req_message = ''book tomorrow 10am terminal A'', req_user_id = Some ''u1'',
                     req_user_role = Some ''CARRIER'' \<rparr>"

definition thanks_request :: chat_request where
  "thanks_request = \<lparr> req_message = ''thanks'', req_user_id = Some ''u1'',
                       req_user_role = Some ''CARRIER'' \<rparr>"

definition form_turn_state :: agent_state where
  "form_turn_state = \<lparr>
     messages = [HumanMessage ''book tomorrow 10am terminal A'', AIMessage [] [form_call],
                 ToolMessage ''FORM'' ''c1'' ''prepare_booking_form'', AIMessage ''Done.'' []],
     current_intent = Val ''booking'', language_detected = Val ''English'',
     draft_response = Null, route_lock = Null, pending_intents = Val [],
     user_id = Val ''u1'', user_role = Val ''CARRIER'', terminal_id = Null,
     carrier_id = Val ''carrier-1'', thread_id = Val ''t1'', ui_payload = Val booking_form \<rparr>"

definition clarifying_state :: agent_state where
  "clarifying_state = queued_state \<lparr> route_lock := Val ''CAPACITY'' \<rparr>"

definition bad_head_state :: agent_state where
  "bad_head_state = queued_state \<lparr> pending_intents := Val [''HISTORY'', ''BOOKING''] \<rparr>"

definition bare_multi_env :: env where
  "bare_multi_env = scripted_env (\<lambda>u. ''JSON'') (Some (JObj [(''intent'', JStr ''MULTI'')]))
     (\<lambda>ms. (''Noted.'', []))"

section \<open>Properties\<close>

subsection \<open>Permission table and denial\<close>

lemma carrier_entry:
  "map_of ROLE_PERMISSIONS ''CARRIER'' =
     Some \<lparr> allowed_intents = [''booking'', ''capacity'', ''general''],
        can_view_capacity = True, can_view_history = True, label = ''Truck Carrier'' \<rparr>"
  by (simp add: ROLE_PERMISSIONS_def)

lemma role_config_in_table:
  "(case role_lookup role of None \<Rightarrow> the (map_of ROLE_PERMISSIONS ''CARRIER'') | Some cfg \<Rightarrow> cfg)
     \<in> snd ` set ROLE_PERMISSIONS"
  by (cases role) (auto simp: role_lookup_def ROLE_PERMISSIONS_def)

lemma check_permission_iff:
  "check_permission role i \<longleftrightarrow> i \<in> {Some ''booking'', Some ''capacity'', Some ''general''}"
  using role_config_in_table[of role]
  by (cases i) (auto simp: check_permission_def Let_def ROLE_PERMISSIONS_def)

lemma guardian_denied:
  assumes "\<not> check_permission (dict_get (user_role s) (Some ''CARRIER''))
                 (dict_get (current_intent s) (Some ''general''))"
  shows "guardian_node env s =
     Inr (no_update \<lparr> u_messages :=
            [AIMessage (blocked_msg (dict_get (user_role s) (Some ''CARRIER''))
                          (dict_get (current_intent s) (Some ''general''))) []],
          u_draft_response := Null, u_ui_payload := Null, goto := ''__end__'' \<rparr>)"
  using assms by (simp add: guardian_node_def guardian_trace_def Let_def)

lemma role_labels:
  "role_label_of (Some ''CARRIER'') = ''Truck Carrier''"
  "role_label_of (Some ''OPERATOR'') = ''Terminal Operator''"
  "role_label_of (Some ''ADMIN'') = ''Port Administrator''"
  by (simp_all add: role_label_of_def role_lookup_def ROLE_PERMISSIONS_def)

text \<open>
  C6.  \<open>check_permission\<close> depends on the role and the intent alone and holds exactly for
  the intents booking, capacity and general, whatever the role; a role outside the
  table is judged by the CARRIER entry.  When it fails for the state's role and
  intent, the Guardian returns the Access Denied message built from the role's label,
  sets \<open>draft_response\<close> and \<open>ui_payload\<close> to \<open>None\<close>, touches no other key and goes to
  \<open>__end__\<close>, whatever \<open>pending_intents\<close> holds.
\<close>

theorem permission_table_and_denial:
  fixes s :: agent_state and env :: env
  defines "r \<equiv> dict_get (user_role s) (Some ''CARRIER'')"
      and "i \<equiv> dict_get (current_intent s) (Some ''general'')"
  shows "(\<forall>role intent. check_permission role intent
            \<longleftrightarrow> intent \<in> {Some ''booking'', Some ''capacity'', Some ''general''})
       \<and> (\<forall>role intent. role_lookup role = None
            \<longrightarrow> check_permission role intent = check_permission (Some ''CARRIER'') intent)
       \<and> role_label_of (Some ''CARRIER'') = ''Truck Carrier''
       \<and> role_label_of (Some ''OPERATOR'') = ''Terminal Operator''
       \<and> role_label_of (Some ''ADMIN'') = ''Port Administrator''
       \<and> (\<not> check_permission r i \<longrightarrow>
            guardian_node env s =
              Inr (no_update \<lparr> u_messages :=
                     [AIMessage (''Access Denied: As a '' @ role_label_of r @
                        '', you do not have permission to access '' @ fmt_opt i @
                        '' data. Please contact your terminal operator for assistance.'') []],
                   u_draft_response := Null, u_ui_payload := Null, goto := ''__end__'' \<rparr>))"
proof -
  have table: "\<forall>role intent. check_permission role intent
            \<longleftrightarrow> intent \<in> {Some ''booking'', Some ''capacity'', Some ''general''}"
    using check_permission_iff by blast
  have fallback: "\<forall>role intent. role_lookup role = None
            \<longrightarrow> check_permission role intent = check_permission (Some ''CARRIER'') intent"
    using check_permission_iff by blast
  have denied: "\<not> check_permission r i \<longrightarrow>
            guardian_node env s =
              Inr (no_update \<lparr> u_messages :=
                     [AIMessage (''Access Denied: As a '' @ role_label_of r @
                        '', you do not have permission to access '' @ fmt_opt i @
                        '' data. Please contact your terminal operator for assistance.'') []],
                   u_draft_response := Null, u_ui_payload := Null, goto := ''__end__'' \<rparr>)"
    using guardian_denied[of s env] by (simp add: r_def i_def blocked_msg_def)
  from table fallback denied role_labels show ?thesis by blast
qed

theorem permission_table_and_denial_witness:
  "\<not> check_permission (Some ''OPERATOR'') (Some ''history'')
   \<and> role_lookup (Some ''carrier'') = None
   \<and> check_permission (Some ''carrier'') (Some ''capacity'')
   \<and> guardian_node quiet_env
        (empty_state \<lparr> current_intent := Val ''history'', user_role := Val ''OPERATOR'',
                       pending_intents := Val [''BOOKING''],
                       ui_payload := Val booking_form \<rparr>) =
       Inr (no_update \<lparr> u_messages :=
              [AIMessage ''Access Denied: As a Terminal Operator, you do not have permission to access history data. Please contact your terminal operator for assistance.'' []],
            u_draft_response := Null, u_ui_payload := Null, goto := ''__end__'' \<rparr>)"
proof -
  let ?s = "empty_state \<lparr> current_intent := Val ''history'', user_role := Val ''OPERATOR'',
                       pending_intents := Val [''BOOKING''],
                       ui_payload := Val booking_form \<rparr>"
  have denied: "\<not> check_permission (Some ''OPERATOR'') (Some ''history'')"
    by (simp add: check_permission_def role_lookup_def ROLE_PERMISSIONS_def)
  have unknown: "role_lookup (Some ''carrier'') = None"
    by (simp add: role_lookup_def ROLE_PERMISSIONS_def)
  from permission_table_and_denial[of ?s quiet_env] unknown
  have "check_permission (Some ''carrier'') (Some ''capacity'')
          = check_permission (Some ''CARRIER'') (Some ''capacity'')"
    by blast
  moreover from permission_table_and_denial[of ?s quiet_env]
  have "check_permission (Some ''CARRIER'') (Some ''capacity'')"
    by blast
  ultimately have fallback: "check_permission (Some ''carrier'') (Some ''capacity'')"
    by simp
  from permission_table_and_denial[of ?s quiet_env] denied unknown fallback
  show ?thesis by (simp add: empty_state_def role_labels)
qed

subsection \<open>Guardian: continuation\<close>

lemma guardian_granted:
  assumes "check_permission (dict_get (user_role s) (Some ''CARRIER''))
             (dict_get (current_intent s) (Some ''general''))"
      and "dict_get (language_detected s) (Some ''English'') \<noteq> None"
  shows "\<exists>txt. guardian_node env s = Inr (guardian_finish s (dict_get (ui_payload s) None) txt)"
  using assms
  by (auto simp: guardian_node_def guardian_trace_def Let_def get_system_prompt_guardian_def
        get_system_prompt_form_generation_def split: option.splits prod.splits)

lemma guardian_finish_goto:
  "goto (guardian_finish s ui txt) =
     (case pending_of s of
        n # rest \<Rightarrow> if \<not> truthy_str (dict_get (route_lock s) None) \<and> n \<in> valid_targets
                    then n else ''__end__''
      | [] \<Rightarrow> ''__end__'')"
  by (simp add: guardian_finish_def Let_def no_update_def split: list.splits)

lemma guardian_finish_pending:
  "u_pending_intents (guardian_finish s ui txt) =
     (case pending_of s of
        n # rest \<Rightarrow> if \<not> truthy_str (dict_get (route_lock s) None) then Val rest else Absent
      | [] \<Rightarrow> Absent)"
  by (simp add: guardian_finish_def Let_def no_update_def split: list.splits)

lemma guardian_finish_intent:
  "u_current_intent (guardian_finish s ui txt) =
     (case pending_of s of
        n # rest \<Rightarrow> if \<not> truthy_str (dict_get (route_lock s) None) \<and> n \<in> valid_targets
                    then Val (lower n) else Absent
      | [] \<Rightarrow> Absent)"
  by (simp add: guardian_finish_def Let_def no_update_def split: list.splits)

lemma guardian_finish_lock:
  "u_route_lock (guardian_finish s ui txt) = to_slot (dict_get (route_lock s) None)"
  by (simp add: guardian_finish_def Let_def no_update_def split: list.splits)

lemma guardian_finish_ui:
  "u_ui_payload (guardian_finish s ui txt) = (if truthy_json ui then to_slot ui else Null)"
  by (simp add: guardian_finish_def Let_def no_update_def split: list.splits)

lemma lower_names: "lower ''BOOKING'' = ''booking''" "lower ''CAPACITY'' = ''capacity''"
  by code_simp+

lemma truthy_lock:
  "route_lock s \<noteq> Val [] \<Longrightarrow>
     truthy_str (dict_get (route_lock s) None) \<longleftrightarrow> dict_get (route_lock s) None \<noteq> None"
  by (cases "route_lock s") auto

lemma apply_update_fields:
  "messages (apply_update s c) = messages s @ u_messages c"
  "current_intent (apply_update s c) = write_slot (current_intent s) (u_current_intent c)"
  "language_detected (apply_update s c) = write_slot (language_detected s) (u_language_detected c)"
  "draft_response (apply_update s c) = write_slot (draft_response s) (u_draft_response c)"
  "route_lock (apply_update s c) = write_slot (route_lock s) (u_route_lock c)"
  "pending_intents (apply_update s c) = write_slot (pending_intents s) (u_pending_intents c)"
  "ui_payload (apply_update s c) = write_slot (ui_payload s) (u_ui_payload c)"
  "user_role (apply_update s c) = user_role s"
  "user_id (apply_update s c) = user_id s"
  "terminal_id (apply_update s c) = terminal_id s"
  "carrier_id (apply_update s c) = carrier_id s"
  by (simp_all add: apply_update_def)

lemma pending_after:
  "pending_of (apply_update s c) =
     (case u_pending_intents c of Absent \<Rightarrow> pending_of s | Null \<Rightarrow> [] | Val p \<Rightarrow> p)"
  by (simp add: pending_of_def apply_update_def split: slot.splits)

text \<open>
  C3.  With permission granted (and a detected language, which the prompt builder
  needs), the Guardian returns a command.  It leaves for a specialist exactly when the
  queue is non-empty, \<open>route_lock\<close> is null and the queue's head is BOOKING or
  CAPACITY; then the head is the destination, the rest of the queue is stored and the
  lowercased head is the current intent.  With \<open>route_lock\<close> set the turn ends and the
  queue and the lock stay as they were; with an invalid head the head is dropped and
  the turn ends.  (\<open>route_lock\<close> is never the empty string: the handlers write only
  \<open>None\<close>, BOOKING or CAPACITY.)
\<close>

theorem guardian_continuation:
  assumes perm: "check_permission (dict_get (user_role s) (Some ''CARRIER''))
                   (dict_get (current_intent s) (Some ''general''))"
      and lang: "dict_get (language_detected s) (Some ''English'') \<noteq> None"
      and lock: "route_lock s \<noteq> Val []"
  shows "\<exists>c. guardian_node env s = Inr c
     \<and> (goto c \<noteq> ''__end__'' \<longleftrightarrow>
          (pending_of s \<noteq> [] \<and> dict_get (route_lock s) None = None
             \<and> hd (pending_of s) \<in> {''BOOKING'', ''CAPACITY''}))
     \<and> (\<forall>n rest. pending_of s = n # rest \<and> goto c \<noteq> ''__end__'' \<longrightarrow>
          goto c = n \<and> pending_of (apply_update s c) = rest
          \<and> current_intent (apply_update s c) = Val (lower n)
          \<and> lower n \<in> {''booking'', ''capacity''})
     \<and> (dict_get (route_lock s) None \<noteq> None \<longrightarrow>
          goto c = ''__end__'' \<and> pending_intents (apply_update s c) = pending_intents s
          \<and> route_lock (apply_update s c) = route_lock s)
     \<and> (\<forall>n rest. pending_of s = n # rest \<and> dict_get (route_lock s) None = None
            \<and> n \<notin> {''BOOKING'', ''CAPACITY''} \<longrightarrow>
          goto c = ''__end__'' \<and> pending_of (apply_update s c) = rest)"
proof -
  from guardian_granted[OF perm lang] obtain final where
    run: "guardian_node env s = Inr (guardian_finish s (dict_get (ui_payload s) None) final)"
    by blast
  let ?c = "guardian_finish s (dict_get (ui_payload s) None) final"
  note tl = truthy_lock[OF lock]
  have a: "goto ?c \<noteq> ''__end__'' \<longleftrightarrow>
          (pending_of s \<noteq> [] \<and> dict_get (route_lock s) None = None
             \<and> hd (pending_of s) \<in> {''BOOKING'', ''CAPACITY''})"
    using tl by (auto simp: guardian_finish_goto valid_targets_def split: list.splits)
  have b: "\<forall>n rest. pending_of s = n # rest \<and> goto ?c \<noteq> ''__end__'' \<longrightarrow>
          goto ?c = n \<and> pending_of (apply_update s ?c) = rest
          \<and> current_intent (apply_update s ?c) = Val (lower n)
          \<and> lower n \<in> {''booking'', ''capacity''}"
    using tl
    by (auto simp: guardian_finish_goto guardian_finish_pending guardian_finish_intent
          pending_after valid_targets_def apply_update_fields lower_names split: if_splits)
  have c: "dict_get (route_lock s) None \<noteq> None \<longrightarrow>
          goto ?c = ''__end__'' \<and> pending_intents (apply_update s ?c) = pending_intents s
          \<and> route_lock (apply_update s ?c) = route_lock s"
    using tl
    by (cases "route_lock s")
       (auto simp: guardian_finish_goto guardian_finish_pending guardian_finish_lock
          apply_update_fields split: list.splits)
  have d: "\<forall>n rest. pending_of s = n # rest \<and> dict_get (route_lock s) None = None
            \<and> n \<notin> {''BOOKING'', ''CAPACITY''} \<longrightarrow>
          goto ?c = ''__end__'' \<and> pending_of (apply_update s ?c) = rest"
    by (auto simp: guardian_finish_goto guardian_finish_pending pending_after valid_targets_def)
  from run a b c d show ?thesis by blast
qed


theorem guardian_continuation_witness:
  "(\<exists>c. guardian_node quiet_env queued_state = Inr c \<and> goto c = ''BOOKING''
          \<and> pending_of (apply_update queued_state c) = [''CAPACITY'']
          \<and> current_intent (apply_update queued_state c) = Val ''booking'')
   \<and> (\<exists>c. guardian_node quiet_env clarifying_state = Inr c \<and> goto c = ''__end__''
          \<and> pending_intents (apply_update clarifying_state c) = Val [''BOOKING'', ''CAPACITY'']
          \<and> route_lock (apply_update clarifying_state c) = Val ''CAPACITY'')
   \<and> (\<exists>c. guardian_node quiet_env bad_head_state = Inr c \<and> goto c = ''__end__''
          \<and> pending_of (apply_update bad_head_state c) = [''BOOKING''])"
proof -
  have perm: "check_permission (dict_get (user_role s) (Some ''CARRIER''))
     (dict_get (current_intent s) (Some ''general''))"
    if "s \<in> {queued_state, clarifying_state, bad_head_state}" for s
    using that
    by (auto simp: check_permission_iff queued_state_def clarifying_state_def bad_head_state_def
          empty_state_def)
  have lang: "dict_get (language_detected s) (Some ''English'') \<noteq> None"
    if "s \<in> {queued_state, clarifying_state, bad_head_state}" for s
    using that
    by (auto simp: queued_state_def clarifying_state_def bad_head_state_def empty_state_def)
  have lock: "route_lock s \<noteq> Val []"
    if "s \<in> {queued_state, clarifying_state, bad_head_state}" for s
    using that
    by (auto simp: queued_state_def clarifying_state_def bad_head_state_def empty_state_def)
  have q1: "pending_of queued_state = ''BOOKING'' # [''CAPACITY'']"
    by (simp add: pending_of_def queued_state_def empty_state_def)
  have l1: "dict_get (route_lock queued_state) None = None"
    by (simp add: queued_state_def empty_state_def)
  have l2: "dict_get (route_lock clarifying_state) None \<noteq> None"
    by (simp add: clarifying_state_def)
  have p2: "pending_intents clarifying_state = Val [''BOOKING'', ''CAPACITY'']"
     and r2: "route_lock clarifying_state = Val ''CAPACITY''"
    by (simp_all add: clarifying_state_def queued_state_def empty_state_def)
  have q3: "pending_of bad_head_state = ''HISTORY'' # [''BOOKING'']"
    by (simp add: pending_of_def bad_head_state_def)
  have l3: "dict_get (route_lock bad_head_state) None = None"
    by (simp add: bad_head_state_def queued_state_def empty_state_def)
  have first: "\<exists>c. guardian_node quiet_env queued_state = Inr c \<and> goto c = ''BOOKING''
          \<and> pending_of (apply_update queued_state c) = [''CAPACITY'']
          \<and> current_intent (apply_update queued_state c) = Val ''booking''"
  proof -
    from guardian_continuation[OF perm lang lock, of queued_state quiet_env] obtain c where
      run: "guardian_node quiet_env queued_state = Inr c"
      and leaves: "goto c \<noteq> ''__end__'' \<longleftrightarrow>
          (pending_of queued_state \<noteq> [] \<and> dict_get (route_lock queued_state) None = None
             \<and> hd (pending_of queued_state) \<in> {''BOOKING'', ''CAPACITY''})"
      and pop: "\<forall>n rest. pending_of queued_state = n # rest \<and> goto c \<noteq> ''__end__'' \<longrightarrow>
          goto c = n \<and> pending_of (apply_update queued_state c) = rest
          \<and> current_intent (apply_update queued_state c) = Val (lower n)
          \<and> lower n \<in> {''booking'', ''capacity''}"
      by blast
    from leaves q1 l1 have "goto c \<noteq> ''__end__''" by simp
    with pop q1 have "goto c = ''BOOKING''
        \<and> pending_of (apply_update queued_state c) = [''CAPACITY'']
        \<and> current_intent (apply_update queued_state c) = Val (lower ''BOOKING'')"
      by blast
    with run show ?thesis by (auto simp: lower_names)
  qed
  have second: "\<exists>c. guardian_node quiet_env clarifying_state = Inr c \<and> goto c = ''__end__''
          \<and> pending_intents (apply_update clarifying_state c) = Val [''BOOKING'', ''CAPACITY'']
          \<and> route_lock (apply_update clarifying_state c) = Val ''CAPACITY''"
  proof -
    from guardian_continuation[OF perm lang lock, of clarifying_state quiet_env] obtain c where
      run: "guardian_node quiet_env clarifying_state = Inr c"
      and keep: "dict_get (route_lock clarifying_state) None \<noteq> None \<longrightarrow>
          goto c = ''__end__''
          \<and> pending_intents (apply_update clarifying_state c) = pending_intents clarifying_state
          \<and> route_lock (apply_update clarifying_state c) = route_lock clarifying_state"
      by blast
    from keep l2 run show ?thesis by (auto simp: p2 r2)
  qed
  have third: "\<exists>c. guardian_node quiet_env bad_head_state = Inr c \<and> goto c = ''__end__''
          \<and> pending_of (apply_update bad_head_state c) = [''BOOKING'']"
  proof -
    from guardian_continuation[OF perm lang lock, of bad_head_state quiet_env] obtain c where
      run: "guardian_node quiet_env bad_head_state = Inr c"
      and drop: "\<forall>n rest. pending_of bad_head_state = n # rest
            \<and> dict_get (route_lock bad_head_state) None = None
            \<and> n \<notin> {''BOOKING'', ''CAPACITY''} \<longrightarrow>
          goto c = ''__end__'' \<and> pending_of (apply_update bad_head_state c) = rest"
      by blast
    from drop q3 l3 have "goto c = ''__end__''
        \<and> pending_of (apply_update bad_head_state c) = [''BOOKING'']"
      by auto
    with run show ?thesis by blast
  qed
  from first second third show ?thesis by blast
qed

subsection \<open>Orchestrator: routing\<close>

lemma orchestrator_routes:
  assumes "messages s \<noteq> []"
      and "classify_intent_and_language env (content (last (messages s)))
             (history_of env (messages s)) (active_route_of s) (previous_intent_of s) = Inr c"
  shows "orchestrator_node env s = route_classified env s c"
  using assms by (simp add: orchestrator_node_def)

lemma str_in_names:
  "\<not> str_in ''MULTI'' ''BOOKING''" "\<not> str_in ''MULTI'' ''CAPACITY''"
  "str_in ''BOOKING'' ''BOOKING''" "\<not> str_in ''BOOKING'' ''CAPACITY''"
  "str_in ''CAPACITY'' ''CAPACITY''" "str_in ''MULTI'' ''MULTI''"
  "\<not> str_in ''MULTI'' ''CHITCHAT''" "\<not> str_in ''BOOKING'' ''CHITCHAT''"
  "\<not> str_in ''CAPACITY'' ''CHITCHAT''" "\<not> str_in ''HELP'' ''CHITCHAT''"
  "\<not> str_in ''OUT_OF_SCOPE'' ''CHITCHAT''"
  by simp_all

lemma route_fresh_specialist:
  assumes "cls_intent c = L" and "L \<in> {''BOOKING'', ''CAPACITY''}"
  shows "route_fresh env s c = Inr (no_update \<lparr> u_current_intent := Val (lower L),
           u_language_detected := Val (cls_language c), u_pending_intents := Val [],
           goto := L \<rparr>)"
  using assms by (auto simp: route_fresh_def Let_def str_in_names lower_names)

lemma route_classified_specialist:
  assumes "cls_intent c = L" and "L \<in> {''BOOKING'', ''CAPACITY''}"
  shows "route_classified env s c = route_fresh env s c"
  using assms by (auto simp: route_classified_def split: list.splits)

lemma route_fresh_no_lock:
  "route_fresh env s c = Inr cmd \<Longrightarrow>
     u_route_lock cmd = Absent \<and> u_language_detected cmd = Val (cls_language c)
     \<and> u_ui_payload cmd = Absent \<and> u_messages cmd = []"
  by (auto simp: route_fresh_def Let_def no_update_def split: if_splits sum.splits list.splits)

lemma route_classified_no_lock:
  "route_classified env s c = Inr cmd \<Longrightarrow>
     u_route_lock cmd = Absent \<and> u_language_detected cmd = Val (cls_language c)
     \<and> u_ui_payload cmd = Absent \<and> u_messages cmd = []"
  using route_fresh_no_lock[of env s c cmd]
  by (auto simp: route_classified_def no_update_def split: list.splits if_splits)

lemma route_classified_queue:
  assumes "pending_of s = n # rest"
      and "cls_intent c \<notin> {''MULTI'', ''BOOKING'', ''CAPACITY'', ''CHITCHAT''}"
      and "n \<in> {''BOOKING'', ''CAPACITY''}"
  shows "route_classified env s c = Inr (no_update \<lparr> u_current_intent := Val (lower n),
           u_language_detected := Val (cls_language c), u_pending_intents := Val rest,
           goto := n \<rparr>)"
  using assms by (auto simp: route_classified_def valid_nodes_def)

lemma route_classified_chitchat:
  assumes "cls_intent c = ''CHITCHAT''"
  shows "route_classified env s c = Inr (no_update \<lparr> u_draft_response := Val (JStr greeting_text),
           u_current_intent := Val ''general'', u_language_detected := Val (cls_language c),
           u_pending_intents := Val [], goto := ''GUARDIAN'' \<rparr>)"
  using assms
  by (auto simp: route_classified_def route_fresh_def Let_def str_in_names split: list.splits)


subsection \<open>Orchestrator: compound requests\<close>

lemma normalize_strings:
  "normalize_intents env (map JStr xs) =
     Inr (filter (\<lambda>i. i \<in> {''BOOKING'', ''CAPACITY''}) (map (\<lambda>i. py_upper env (py_strip env i)) xs))"
  by (induction xs) auto

lemma multi_intents_absent:
  "cls_intents c = None \<Longrightarrow> keeps_names env \<Longrightarrow>
     multi_intents env c = Inr [''CAPACITY'', ''BOOKING'']"
  by (simp add: multi_intents_def keeps_names_def)

lemma multi_intents_strings:
  "cls_intents c = Some (JArr (map JStr xs)) \<Longrightarrow>
     multi_intents env c =
       Inr (let valid = filter (\<lambda>i. i \<in> {''BOOKING'', ''CAPACITY''})
                          (map (\<lambda>i. py_upper env (py_strip env i)) xs)
            in if length valid < 2 then [''CAPACITY'', ''BOOKING''] else valid)"
  by (simp add: multi_intents_def normalize_strings Let_def)

lemma route_classified_multi:
  "cls_intent c = ''MULTI'' \<Longrightarrow> route_classified env s c =
     (case multi_intents env c of
           Inl e \<Rightarrow> Inl e
         | Inr [] \<Rightarrow> Inl IndexError
         | Inr (first_intent # remaining_intents) \<Rightarrow>
             Inr (no_update \<lparr> u_current_intent := Val (lower first_intent),
                    u_language_detected := Val (cls_language c),
                    u_pending_intents := Val remaining_intents,
                    goto := first_intent \<rparr>))"
  by (simp add: route_classified_def route_fresh_def Let_def str_in_names split: list.splits)

lemma long_list_split:
  "\<not> length xs < 2 \<Longrightarrow> xs = hd xs # tl xs"
  by (cases xs) auto

text \<open>
  C4 (as amended).  On a MULTI classification whose \<open>intents\<close> is a list of strings, the
  orchestrator strips and uppercases the entries (with Python's \<open>str.strip\<close> and
  \<open>str.upper\<close>, whatever they do to an entry), keeps those that are then BOOKING or
  CAPACITY, in their order and with their repetitions (nothing is deduplicated), takes
  the default CAPACITY, BOOKING when fewer than two are kept, makes the lowercased
  first element the current intent, stores exactly the rest as \<open>pending_intents\<close> and
  goes to the first element.  Without an \<open>intents\<close> key the default list goes through
  the same steps, which leave it as it is since stripping and uppercasing do not change
  the two names.
\<close>

theorem multi_intent_routing:
  assumes msgs: "messages s \<noteq> []"
      and cls: "classify_intent_and_language env (content (last (messages s)))
                  (history_of env (messages s)) (active_route_of s) (previous_intent_of s) = Inr c"
      and multi: "cls_intent c = ''MULTI''"
  shows "(cls_intents c = None \<and> keeps_names env \<longrightarrow>
            orchestrator_node env s =
              Inr (no_update \<lparr> u_current_intent := Val ''capacity'',
                     u_language_detected := Val (cls_language c),
                     u_pending_intents := Val [''BOOKING''], goto := ''CAPACITY'' \<rparr>))
       \<and> (\<forall>xs. cls_intents c = Some (JArr (map JStr xs)) \<longrightarrow>
            orchestrator_node env s =
              (let valid = filter (\<lambda>i. i \<in> {''BOOKING'', ''CAPACITY''})
                             (map (\<lambda>i. py_upper env (py_strip env i)) xs);
                   intents_list = (if length valid < 2 then [''CAPACITY'', ''BOOKING''] else valid)
               in Inr (no_update \<lparr> u_current_intent := Val (lower (hd intents_list)),
                         u_language_detected := Val (cls_language c),
                         u_pending_intents := Val (tl intents_list),
                         goto := hd intents_list \<rparr>)))"
proof (intro conjI allI impI)
  assume "cls_intents c = None \<and> keeps_names env"
  then show "orchestrator_node env s =
              Inr (no_update \<lparr> u_current_intent := Val ''capacity'',
                     u_language_detected := Val (cls_language c),
                     u_pending_intents := Val [''BOOKING''], goto := ''CAPACITY'' \<rparr>)"
    using orchestrator_routes[OF msgs cls] route_classified_multi[OF multi, of env s]
    by (simp add: multi_intents_absent lower_names)
next
  fix xs
  assume lst: "cls_intents c = Some (JArr (map JStr xs))"
  let ?valid = "filter (\<lambda>i. i \<in> {''BOOKING'', ''CAPACITY''})
                  (map (\<lambda>i. py_upper env (py_strip env i)) xs)"
  show "orchestrator_node env s =
              (let valid = filter (\<lambda>i. i \<in> {''BOOKING'', ''CAPACITY''})
                             (map (\<lambda>i. py_upper env (py_strip env i)) xs);
                   intents_list = (if length valid < 2 then [''CAPACITY'', ''BOOKING''] else valid)
               in Inr (no_update \<lparr> u_current_intent := Val (lower (hd intents_list)),
                         u_language_detected := Val (cls_language c),
                         u_pending_intents := Val (tl intents_list),
                         goto := hd intents_list \<rparr>))"
  proof (cases "length ?valid < 2")
    case True
    then show ?thesis
      using orchestrator_routes[OF msgs cls] route_classified_multi[OF multi, of env s]
        multi_intents_strings[OF lst, of env]
      by (simp add: Let_def)
  next
    case False
    from long_list_split[OF False] obtain a rest where v: "?valid = a # rest" by blast
    with False show ?thesis
      using orchestrator_routes[OF msgs cls] route_classified_multi[OF multi, of env s]
        multi_intents_strings[OF lst, of env]
      by (simp add: Let_def)
  qed
qed

lemma scripted_strings:
  "py_upper (scripted_env cls parsed agent) = ascii_upper"
  "py_strip (scripted_env cls parsed agent) = ascii_strip"
  by (simp_all add: scripted_env_def)

lemma strip_plain:
  "ascii_strip ''JSON'' = ''JSON''" "ascii_strip ''MULTI'' = ''MULTI''"
  "ascii_strip ''French'' = ''French''" "ascii_strip ''CHITCHAT'' = ''CHITCHAT''"
  "ascii_strip ''HELP'' = ''HELP''" "ascii_strip ''BOOKING'' = ''BOOKING''"
  "ascii_strip ''CAPACITY'' = ''CAPACITY''" "ascii_strip ''Done.'' = ''Done.''"
  "ascii_strip ''English'' = ''English''"
  by code_simp+

lemma upper_plain:
  "ascii_upper ''MULTI'' = ''MULTI''" "ascii_upper ''CHITCHAT'' = ''CHITCHAT''"
  "ascii_upper ''HELP'' = ''HELP''" "ascii_upper ''BOOKING'' = ''BOOKING''"
  "ascii_upper ''CAPACITY'' = ''CAPACITY''"
  by code_simp+

lemma scripted_keeps_names: "keeps_names (scripted_env cls parsed agent)"
  by (simp add: keeps_names_def scripted_strings strip_plain upper_plain)

lemma classify_multi_env:
  "classify_intent_and_language (multi_env xs) u h a p =
     Inr \<lparr> cls_intent = ''MULTI'', cls_language = ''French'',
           cls_intents = Some (JArr (map JStr xs)) \<rparr>"
  by (simp add: classify_intent_and_language_def multi_env_def scripted_env_def llm_invoke_def Let_def
        get_stripped_def strip_plain upper_plain)

lemma classify_bare_multi_env:
  "classify_intent_and_language bare_multi_env u h a p =
     Inr \<lparr> cls_intent = ''MULTI'', cls_language = ''English'', cls_intents = None \<rparr>"
  by (simp add: classify_intent_and_language_def bare_multi_env_def scripted_env_def
        llm_invoke_def Let_def get_stripped_def strip_plain upper_plain)

lemma classify_quiet_env:
  "classify_intent_and_language quiet_env u h a p =
     Inr \<lparr> cls_intent = ''CHITCHAT'', cls_language = ''English'', cls_intents = None \<rparr>"
  by (simp add: classify_intent_and_language_def quiet_env_def scripted_env_def llm_invoke_def Let_def
        strip_plain upper_plain)

lemma classify_help_env:
  "classify_intent_and_language help_env u h a p =
     Inr \<lparr> cls_intent = ''HELP'', cls_language = ''English'', cls_intents = None \<rparr>"
  by (simp add: classify_intent_and_language_def help_env_def scripted_env_def llm_invoke_def Let_def
        strip_plain upper_plain)

lemma classify_booking_env:
  "classify_intent_and_language booking_env u h a p =
     Inr \<lparr> cls_intent = ''BOOKING'', cls_language = ''English'', cls_intents = None \<rparr>"
  by (simp add: classify_intent_and_language_def booking_env_def scripted_env_def llm_invoke_def Let_def
        strip_plain upper_plain)

lemma fresh_state_messages: "messages fresh_state \<noteq> []"
  by (simp add: fresh_state_def empty_state_def)

theorem multi_intent_routing_witness:
  "messages fresh_state \<noteq> []
   \<and> orchestrator_node (multi_env ['' capacity'', ''BOOKING'', ''weather'', ''booking'']) fresh_state =
       Inr (no_update \<lparr> u_current_intent := Val ''capacity'',
              u_language_detected := Val ''French'',
              u_pending_intents := Val [''BOOKING'', ''BOOKING''], goto := ''CAPACITY'' \<rparr>)
   \<and> keeps_names bare_multi_env
   \<and> orchestrator_node bare_multi_env fresh_state =
       Inr (no_update \<lparr> u_current_intent := Val ''capacity'',
              u_language_detected := Val ''English'',
              u_pending_intents := Val [''BOOKING''], goto := ''CAPACITY'' \<rparr>)"
proof -
  let ?b = "\<lparr> cls_intent = ''MULTI'', cls_language = ''English'', cls_intents = None \<rparr>"
  have bare_multi: "cls_intent ?b = ''MULTI''" by simp
  have keeps: "keeps_names bare_multi_env"
    unfolding bare_multi_env_def by (rule scripted_keeps_names)
  note bare_routing = multi_intent_routing[OF fresh_state_messages classify_bare_multi_env bare_multi]
  from conjunct1[OF bare_routing] keeps
  have bare: "orchestrator_node bare_multi_env fresh_state =
       Inr (no_update \<lparr> u_current_intent := Val ''capacity'',
              u_language_detected := Val ''English'',
              u_pending_intents := Val [''BOOKING''], goto := ''CAPACITY'' \<rparr>)"
    by simp
  let ?xs = "['' capacity'', ''BOOKING'', ''weather'', ''booking'']"
  let ?c = "\<lparr> cls_intent = ''MULTI'', cls_language = ''French'',
           cls_intents = Some (JArr (map JStr ?xs)) \<rparr>"
  have strings: "py_upper (multi_env ?xs) = ascii_upper" "py_strip (multi_env ?xs) = ascii_strip"
    by (simp_all add: multi_env_def scripted_strings)
  have valid: "filter (\<lambda>i. i \<in> {''BOOKING'', ''CAPACITY''})
                 (map (\<lambda>i. py_upper (multi_env ?xs) (py_strip (multi_env ?xs) i)) ?xs)
                 = [''CAPACITY'', ''BOOKING'', ''BOOKING'']"
    unfolding strings by code_simp
  have multi: "cls_intent ?c = ''MULTI''" by simp
  have lst: "cls_intents ?c = Some (JArr (map JStr ?xs))" by simp
  note routing = multi_intent_routing[OF fresh_state_messages classify_multi_env multi]
  from conjunct2[OF routing]
  have "cls_intents ?c = Some (JArr (map JStr ?xs)) \<longrightarrow>
          orchestrator_node (multi_env ?xs) fresh_state =
              (let valid = filter (\<lambda>i. i \<in> {''BOOKING'', ''CAPACITY''})
                             (map (\<lambda>i. py_upper (multi_env ?xs) (py_strip (multi_env ?xs) i)) ?xs);
                   intents_list = (if length valid < 2 then [''CAPACITY'', ''BOOKING''] else valid)
               in Inr (no_update \<lparr> u_current_intent := Val (lower (hd intents_list)),
                         u_language_detected := Val (cls_language ?c),
                         u_pending_intents := Val (tl intents_list),
                         goto := hd intents_list \<rparr>))"
    by (rule spec)
  from this lst
  have eq: "orchestrator_node (multi_env ?xs) fresh_state =
              (let valid = filter (\<lambda>i. i \<in> {''BOOKING'', ''CAPACITY''})
                             (map (\<lambda>i. py_upper (multi_env ?xs) (py_strip (multi_env ?xs) i)) ?xs);
                   intents_list = (if length valid < 2 then [''CAPACITY'', ''BOOKING''] else valid)
               in Inr (no_update \<lparr> u_current_intent := Val (lower (hd intents_list)),
                         u_language_detected := Val (cls_language ?c),
                         u_pending_intents := Val (tl intents_list),
                         goto := hd intents_list \<rparr>))"
    by (rule mp)
  from eq[unfolded valid] fresh_state_messages bare keeps show ?thesis
    by (simp add: lower_names)
qed

text \<open>
  A list that repeats one specialist is kept as it is: BOOKING is visited with BOOKING
  still queued, where a deduplicated list would have been replaced by the default.
\<close>

theorem multi_intent_dedup_counterexample:
  "orchestrator_node (multi_env [''BOOKING'', ''BOOKING'']) fresh_state =
       Inr (no_update \<lparr> u_current_intent := Val ''booking'',
              u_language_detected := Val ''French'',
              u_pending_intents := Val [''BOOKING''], goto := ''BOOKING'' \<rparr>)
   \<and> claimed_multi_intents (multi_env [''BOOKING'', ''BOOKING'']) [''BOOKING'', ''BOOKING'']
       = [''CAPACITY'', ''BOOKING'']"
proof -
  let ?env = "multi_env [''BOOKING'', ''BOOKING'']"
  let ?c = "\<lparr> cls_intent = ''MULTI'', cls_language = ''French'',
           cls_intents = Some (JArr [JStr ''BOOKING'', JStr ''BOOKING'']) \<rparr>"
  have strings: "py_upper ?env = ascii_upper" "py_strip ?env = ascii_strip"
    by (simp_all add: multi_env_def scripted_strings)
  have m: "multi_intents ?env ?c = Inr [''BOOKING'', ''BOOKING'']"
    by (simp add: multi_intents_def strings strip_plain upper_plain)
  have cls: "classify_intent_and_language ?env
               (content (last (messages fresh_state))) (history_of ?env (messages fresh_state))
               (active_route_of fresh_state) (previous_intent_of fresh_state) = Inr ?c"
    using classify_multi_env[of "[''BOOKING'', ''BOOKING'']"] by simp
  have "orchestrator_node ?env fresh_state = route_classified ?env fresh_state ?c"
    by (rule orchestrator_routes[OF fresh_state_messages cls])
  also have "\<dots> = Inr (no_update \<lparr> u_current_intent := Val ''booking'',
              u_language_detected := Val ''French'',
              u_pending_intents := Val [''BOOKING''], goto := ''BOOKING'' \<rparr>)"
    by (simp add: route_classified_multi m lower_names)
  finally have code: "orchestrator_node ?env fresh_state =
       Inr (no_update \<lparr> u_current_intent := Val ''booking'',
              u_language_detected := Val ''French'',
              u_pending_intents := Val [''BOOKING''], goto := ''BOOKING'' \<rparr>)" .
  have spec: "claimed_multi_intents ?env [''BOOKING'', ''BOOKING''] = [''CAPACITY'', ''BOOKING'']"
    by (simp add: claimed_multi_intents_def strings strip_plain upper_plain)
  from code spec show ?thesis by blast
qed

subsection \<open>Specialist handlers\<close>

lemma llm_is_ai [simp]: "\<not> is_tool_message (llm_tools_invoke env names msgs)"
  by (simp add: llm_tools_invoke_def)

lemma first_is_ai [simp]: "\<not> is_tool_message (first_response env st s)"
  by (simp add: first_response_def)

lemma rewritten_response:
  "tool_calls (first_response env st s) = call # others \<Longrightarrow>
     with_first_call (first_response env st s) call' =
       AIMessage (content (first_response env st s)) (call' # others)"
  by (simp add: first_response_def llm_tools_invoke_def)



lemma run_tool_parts:
  "run_tool env name a =
     ((name, a) # (case tool_raises env name a of
                       None \<Rightarrow> fst (tool_body env name a)
                     | Some failure \<Rightarrow> fst failure),
      case tool_raises env name a of
        Some failure \<Rightarrow> Inl (snd failure)
      | None \<Rightarrow> Inr (plain_outcome (snd (tool_body env name a))))"
  by (simp add: run_tool_def invoke_def split: option.splits)










lemma booking_trace_call:
  assumes "messages s \<noteq> []"
      and "tool_calls (first_response env (booking_setup env s) s) = call # others"
  shows "booking_agent_trace env s =
     (prefetched (booking_setup env s) @ fst (booking_execute env s call),
      case snd (booking_execute env s call) of
        Inl e \<Rightarrow> Inl e
      | Inr out \<Rightarrow> booking_after_tool env s (booking_setup env s)
                     (AIMessage (content (first_response env (booking_setup env s) s))
                        (scoped_call s call # others)) call out)"
  using assms rewritten_response[OF assms(2)]
  by (cases "booking_execute env s call")
     (simp add: booking_agent_trace_def Let_def split: sum.splits)









lemma capacity_trace_call:
  assumes "capacity_setup env s = Inr st"
      and "tool_calls (first_response env st s) = call # others"
  shows "capacity_trace env s =
     (prefetched st @ fst (capacity_execute env call),
      case snd (capacity_execute env call) of
        Inl e \<Rightarrow> Inl e
      | Inr out \<Rightarrow> capacity_after_tool env s st (first_response env st s) call out)"
  using assms
  by (cases "capacity_execute env call") (simp add: capacity_trace_def Let_def split: sum.splits)

lemma booking_after_tool_lock:
  "booking_after_tool env s st response call out = Inr cmd \<Longrightarrow>
     u_route_lock cmd \<in> {Null, Val ''BOOKING''}"
  by (auto simp: booking_after_tool_def Let_def no_update_def split: if_splits sum.splits)

lemma booking_writes_lock:
  assumes "booking_agent_node env s = Inr cmd"
  shows "u_route_lock cmd \<in> {Null, Val ''BOOKING''}"
proof (cases "tool_calls (first_response env (booking_setup env s) s)")
  case Nil
  with assms show ?thesis
    by (auto simp: booking_agent_node_def booking_agent_trace_def Let_def no_update_def
          split: if_splits)
next
  case (Cons call others)
  from assms have msgs: "messages s \<noteq> []"
    by (auto simp: booking_agent_node_def booking_agent_trace_def)
  from assms booking_trace_call[OF msgs Cons] obtain out response where
    "booking_after_tool env s (booking_setup env s) response call out = Inr cmd"
    by (auto simp: booking_agent_node_def split: sum.splits)
  then show ?thesis by (rule booking_after_tool_lock)
qed

lemma capacity_after_tool_lock:
  "capacity_after_tool env s st ai_msg call out = Inr cmd \<Longrightarrow>
     u_route_lock cmd \<in> {Null, Val ''CAPACITY''}"
  by (auto simp: capacity_after_tool_def Let_def no_update_def split: if_splits sum.splits)

lemma capacity_writes_lock:
  assumes "capacity_node env s = Inr cmd"
  shows "u_route_lock cmd \<in> {Null, Val ''CAPACITY''}"
proof -
  from assms obtain st where st: "capacity_setup env s = Inr st"
    by (auto simp: capacity_node_def capacity_trace_def split: sum.splits)
  show ?thesis
  proof (cases "tool_calls (first_response env st s)")
    case Nil
    with assms st show ?thesis
      by (auto simp: capacity_node_def capacity_trace_def Let_def no_update_def)
  next
    case (Cons call others)
    from assms capacity_trace_call[OF st Cons] obtain out where
      "capacity_after_tool env s st (first_response env st s) call out = Inr cmd"
      by (auto simp: capacity_node_def split: sum.splits)
    then show ?thesis by (rule capacity_after_tool_lock)
  qed
qed




lemma calling_env_fields:
  "tool_raises (calling_env calls answer) n a =
     (if list_all (\<lambda>k. map_of a k \<noteq> None) (required_args n) then None
      else Some ([], ValidationError))"
  "tool_body (calling_env calls answer) n a =
     (if n = ''prepare_booking_form'' then ([(''get_terminals_map'', [])], JStr ''FORM'')
      else if n = ''get_terminals_map'' then ([], JObj [(''Terminal A'', JStr ''t-a'')])
      else if n = ''communicate_with_user''
      then ([], JObj [(''type'', JStr ''communication''),
                      (''message'', (case map_of a ''message'' of None \<Rightarrow> JNull | Some m \<Rightarrow> m))])
      else ([], JStr ''No data available.''))"
  "json_loads (calling_env calls answer) r = (if r = ''FORM'' then Some booking_form else None)"
  "py_repr (calling_env calls answer) j = ''{...}''"
  "llm_tools_reply (calling_env calls answer) names ms =
     (if list_ex is_tool_message ms then (answer, []) else ([], calls))"
  "booking_prompt (calling_env calls answer) role data info tmap = ''You are the Booking Assistant''"
  "capacity_prompt (calling_env calls answer) tmap role info = ''You are the Capacity Analyst''"
  by (simp_all add: calling_env_def scripted_env_def)

lemma calling_env_llm:
  "llm_tools_invoke (calling_env calls answer) names ms =
     (if list_ex is_tool_message ms then AIMessage answer [] else AIMessage [] calls)"
  by (simp add: llm_tools_invoke_def calling_env_fields)

lemma fresh_setup:
  "booking_setup (calling_env calls answer) fresh_state =
     \<lparr> tools_to_bind = [''prepare_booking_form'', ''communicate_with_user'', ''get_bookings_by_user''],
       system_prompt = ''You are the Booking Assistant'',
       prefetched = [(''get_terminals_map'', [])] \<rparr>"
  by (simp add: booking_setup_def invoke_own_def calling_env_fields fresh_state_def
        empty_state_def Let_def)


lemma fresh_first_response:
  "first_response (calling_env calls answer) st fresh_state = AIMessage [] calls"
  by (simp add: first_response_def calling_env_llm fresh_state_def empty_state_def)

lemma required_names:
  "required_args ''communicate_with_user'' = [''message'', ''needs_followup'']"
  "required_args ''get_all_bookings'' = []"
  "required_args ''get_terminal_schedule'' = []"
  by (simp_all add: required_args_def)





text \<open>
  C8.  A carrier's handler binds three tools, and \<open>get_all_bookings\<close>, which its
  docstring reserves for the administrator, is not among them.  When the model's answer
  to a carrier calls it, the handler does not record the text \<open>Unknown tool\<close>: it runs
  the tool and records what the tool returns, which the model then phrases.
\<close>

theorem carrier_runs_admin_tool:
  "dict_get (user_role fresh_state) (Some ''CARRIER'') = Some ''CARRIER''
   \<and> tools_to_bind (booking_setup (calling_env admin_only_call ''Here are all bookings.'') fresh_state)
     = [''prepare_booking_form'', ''communicate_with_user'', ''get_bookings_by_user'']
   \<and> tool_calls (first_response (calling_env admin_only_call ''Here are all bookings.'')
        (booking_setup (calling_env admin_only_call ''Here are all bookings.'') fresh_state)
        fresh_state) = [ToolCall ''get_all_bookings'' [] ''c7'']
   \<and> booking_agent_trace (calling_env admin_only_call ''Here are all bookings.'') fresh_state =
       ([(''get_terminals_map'', []), (''get_all_bookings'', [])],
        Inr (no_update \<lparr> u_messages := [AIMessage [] admin_only_call,
               ToolMessage ''No data available.'' ''c7'' ''get_all_bookings'',
               AIMessage ''Here are all bookings.'' []],
             u_draft_response := Val (JStr ''Here are all bookings.''),
             u_route_lock := Null, goto := ''GUARDIAN'' \<rparr>))"
proof -
  let ?E = "calling_env admin_only_call ''Here are all bookings.''"
  have role: "dict_get (user_role fresh_state) (Some ''CARRIER'') = Some ''CARRIER''"
    by (simp add: fresh_state_def empty_state_def)
  have tc: "tool_calls (first_response ?E (booking_setup ?E fresh_state) fresh_state)
              = ToolCall ''get_all_bookings'' [] ''c7'' # []"
    by (simp add: fresh_first_response admin_only_call_def)
  have run: "booking_agent_trace ?E fresh_state =
       ([(''get_terminals_map'', []), (''get_all_bookings'', [])],
        Inr (no_update \<lparr> u_messages := [AIMessage [] admin_only_call,
               ToolMessage ''No data available.'' ''c7'' ''get_all_bookings'',
               AIMessage ''Here are all bookings.'' []],
             u_draft_response := Val (JStr ''Here are all bookings.''),
             u_route_lock := Null, goto := ''GUARDIAN'' \<rparr>))"
    unfolding booking_trace_call[OF fresh_state_messages tc]
    by (simp add: fresh_setup fresh_first_response admin_only_call_def booking_execute_def
          run_tool_parts scoped_call_def booking_after_tool_def Let_def plain_outcome_def
          calling_env_fields required_names calling_env_llm py_str_def)
  from role tc run show ?thesis by (simp add: fresh_setup)
qed

subsection \<open>Orchestrator: lock and queue\<close>

lemma active_route_locked: "route_lock s = Val L \<Longrightarrow> active_route_of s = Some L"
  by (simp add: active_route_of_def)

lemma guardian_returns:
  assumes "guardian_node env s = Inr cmd"
  shows "(\<not> check_permission (dict_get (user_role s) (Some ''CARRIER''))
              (dict_get (current_intent s) (Some ''general'')) \<and> u_route_lock cmd = Absent)
       \<or> (\<exists>final. cmd = guardian_finish s (dict_get (ui_payload s) None) final)"
  using assms
  by (auto simp: guardian_node_def guardian_trace_def Let_def no_update_def
        split: if_splits sum.splits)

lemma guardian_keeps_lock:
  assumes "route_lock s = Val L" and "guardian_node env s = Inr cmd"
  shows "route_lock (apply_update s cmd) = Val L"
  using guardian_returns[OF assms(2)] assms(1)
  by (auto simp: apply_update_fields guardian_finish_lock)

text \<open>
  C1 (as amended).  With \<open>route_lock\<close> set to a specialist name, the orchestrator hands
  the lock to the classifier as the active route and routes on the classification it
  gets back: it goes to the locked specialist when the classifier returns that
  specialist's name, and records the classifier's language.  No update of the
  orchestrator writes \<open>route_lock\<close>: after the orchestrator the lock is still set.  The
  Guardian leaves the lock as it finds it.  Only a specialist handler overwrites it:
  every update of the Booking handler writes \<open>None\<close> or BOOKING, every update of the
  Capacity handler writes \<open>None\<close> or CAPACITY.
\<close>

theorem locked_turn_routing:
  assumes msgs: "messages s \<noteq> []"
      and lock: "route_lock s = Val L"
      and specialist: "L \<in> {''BOOKING'', ''CAPACITY''}"
      and cls: "classify_intent_and_language env (content (last (messages s)))
                  (history_of env (messages s)) (Some L) (previous_intent_of s) = Inr c"
  shows "active_route_of s = Some L
       \<and> orchestrator_node env s = route_classified env s c
       \<and> (cls_intent c = L \<longrightarrow>
            (\<exists>cmd. orchestrator_node env s = Inr cmd \<and> goto cmd = L
               \<and> language_detected (apply_update s cmd) = Val (cls_language c)))
       \<and> (\<forall>cmd. orchestrator_node env s = Inr cmd \<longrightarrow>
            u_route_lock cmd = Absent \<and> route_lock (apply_update s cmd) = Val L
            \<and> u_language_detected cmd = Val (cls_language c))
       \<and> (\<forall>(s' :: agent_state) cmd. route_lock s' = Val L \<and> guardian_node env s' = Inr cmd \<longrightarrow>
            route_lock (apply_update s' cmd) = Val L)
       \<and> (\<forall>(s' :: agent_state) cmd. booking_agent_node env s' = Inr cmd \<longrightarrow>
            u_route_lock cmd \<in> {Null, Val ''BOOKING''}
            \<and> route_lock (apply_update s' cmd) \<in> {Null, Val ''BOOKING''})
       \<and> (\<forall>(s' :: agent_state) cmd. capacity_node env s' = Inr cmd \<longrightarrow>
            u_route_lock cmd \<in> {Null, Val ''CAPACITY''}
            \<and> route_lock (apply_update s' cmd) \<in> {Null, Val ''CAPACITY''})"
proof -
  have ar: "active_route_of s = Some L" by (rule active_route_locked[OF lock])
  from cls ar have cls': "classify_intent_and_language env (content (last (messages s)))
                  (history_of env (messages s)) (active_route_of s) (previous_intent_of s) = Inr c"
    by simp
  have run: "orchestrator_node env s = route_classified env s c"
    by (rule orchestrator_routes[OF msgs cls'])
  have follow: "cls_intent c = L \<longrightarrow>
            (\<exists>cmd. orchestrator_node env s = Inr cmd \<and> goto cmd = L
               \<and> language_detected (apply_update s cmd) = Val (cls_language c))"
  proof
    assume i: "cls_intent c = L"
    from route_classified_specialist[OF i specialist] route_fresh_specialist[OF i specialist]
    show "\<exists>cmd. orchestrator_node env s = Inr cmd \<and> goto cmd = L
               \<and> language_detected (apply_update s cmd) = Val (cls_language c)"
      by (simp add: run apply_update_fields)
  qed
  have keep: "\<forall>cmd. orchestrator_node env s = Inr cmd \<longrightarrow>
            u_route_lock cmd = Absent \<and> route_lock (apply_update s cmd) = Val L
            \<and> u_language_detected cmd = Val (cls_language c)"
    using route_classified_no_lock[of env s c] lock by (simp add: run apply_update_fields)
  have guardian: "\<forall>(s' :: agent_state) cmd.
            route_lock s' = Val L \<and> guardian_node env s' = Inr cmd \<longrightarrow>
            route_lock (apply_update s' cmd) = Val L"
    using guardian_keeps_lock by blast
  have booking: "\<forall>(s' :: agent_state) cmd. booking_agent_node env s' = Inr cmd \<longrightarrow>
            u_route_lock cmd \<in> {Null, Val ''BOOKING''}
            \<and> route_lock (apply_update s' cmd) \<in> {Null, Val ''BOOKING''}"
    using booking_writes_lock by (fastforce simp: apply_update_fields)
  have capacity: "\<forall>(s' :: agent_state) cmd. capacity_node env s' = Inr cmd \<longrightarrow>
            u_route_lock cmd \<in> {Null, Val ''CAPACITY''}
            \<and> route_lock (apply_update s' cmd) \<in> {Null, Val ''CAPACITY''}"
    using capacity_writes_lock by (fastforce simp: apply_update_fields)
  from ar run follow keep guardian booking capacity show ?thesis by blast
qed

text \<open>
  C5 (as amended).  With a non-empty queue whose head is BOOKING or CAPACITY and a fresh
  classification that is none of MULTI, BOOKING, CAPACITY, CHITCHAT (HELP or
  OUT_OF_SCOPE, say), the orchestrator goes to the queue's head instead of following
  the classification, makes the lowercased head the current intent and keeps the rest
  of the queue.  On CHITCHAT the classification is followed: the greeting goes to the
  Guardian and the queue is emptied.
\<close>

theorem queue_owed_routing:
  assumes msgs: "messages s \<noteq> []"
      and cls: "classify_intent_and_language env (content (last (messages s)))
                  (history_of env (messages s)) (active_route_of s) (previous_intent_of s) = Inr c"
      and queue: "pending_of s = n # rest"
  shows "(cls_intent c \<notin> {''MULTI'', ''BOOKING'', ''CAPACITY'', ''CHITCHAT''}
            \<and> n \<in> {''BOOKING'', ''CAPACITY''} \<longrightarrow>
          orchestrator_node env s =
            Inr (no_update \<lparr> u_current_intent := Val (lower n),
                   u_language_detected := Val (cls_language c),
                   u_pending_intents := Val rest, goto := n \<rparr>))
       \<and> (cls_intent c = ''CHITCHAT'' \<longrightarrow>
          orchestrator_node env s =
            Inr (no_update \<lparr> u_draft_response := Val (JStr greeting_text),
                   u_current_intent := Val ''general'',
                   u_language_detected := Val (cls_language c),
                   u_pending_intents := Val [], goto := ''GUARDIAN'' \<rparr>))"
  using orchestrator_routes[OF msgs cls] route_classified_queue[OF queue, of c env]
    route_classified_chitchat[of c env s]
  by simp

lemma graph_run_end: "graph_run env k ''__end__'' s = ([], Inr s)"
  by (cases k) simp_all

lemma graph_two_steps:
  assumes "run_node env n s = (i1, Inr c1)" and "n \<noteq> ''__end__''"
      and "run_node env (goto c1) (apply_update s c1) = (i2, Inr c2)"
      and "goto c1 \<noteq> ''__end__''" and "goto c2 = ''__end__''" and "2 \<le> k"
  shows "graph_run env k n s = (i1 @ i2, Inr (apply_update (apply_update s c1) c2))"
proof -
  from \<open>2 \<le> k\<close> obtain j where k: "k = Suc (Suc j)"
    by (metis Suc_le_D numeral_2_eq_2 Suc_le_mono)
  show ?thesis using assms(1-5) by (simp add: k graph_run_end)
qed

lemma graph_three_steps:
  assumes "run_node env n s = (i1, Inr c1)" and "n \<noteq> ''__end__''"
      and "run_node env (goto c1) (apply_update s c1) = (i2, Inr c2)"
      and "goto c1 \<noteq> ''__end__''"
      and "run_node env (goto c2) (apply_update (apply_update s c1) c2) = (i3, Inr c3)"
      and "goto c2 \<noteq> ''__end__''" and "goto c3 = ''__end__''" and "3 \<le> k"
  shows "graph_run env k n s =
           (i1 @ i2 @ i3, Inr (apply_update (apply_update (apply_update s c1) c2) c3))"
proof -
  from \<open>3 \<le> k\<close> obtain j where k: "k = Suc (Suc (Suc j))"
    by (metis Suc_le_D numeral_3_eq_3 Suc_le_mono)
  show ?thesis using assms(1-7) by (simp add: k graph_run_end)
qed

lemma guardian_step:
  "run_node env ''GUARDIAN'' s = (fst (guardian_trace env s), guardian_node env s)"
  by (simp add: run_node_def guardian_node_def)

lemma guardian_trace_quiet:
  "\<not> truthy_json (dict_get (ui_payload s) None) \<Longrightarrow> fst (guardian_trace env s) = []"
  by (cases "dict_get (ui_payload s) None") (simp_all add: guardian_trace_def Let_def)

lemma guardian_trace_form:
  assumes "check_permission (dict_get (user_role s) (Some ''CARRIER''))
             (dict_get (current_intent s) (Some ''general''))"
      and "truthy_json (dict_get (ui_payload s) None)"
  shows "fst (guardian_trace env s) =
           (''get_terminals_map'', []) # fst (tool_body env ''get_terminals_map'' [])"
  using assms
  by (cases "dict_get (ui_payload s) None")
     (simp_all add: guardian_trace_def Let_def get_system_prompt_form_generation_def invoke_own_def)

lemma locked_state_messages: "messages locked_state \<noteq> []"
  by (simp add: locked_state_def empty_state_def)

lemma owing_state_messages: "messages owing_state \<noteq> []"
  by (simp add: owing_state_def locked_state_def empty_state_def)

lemma owing_state_queue: "pending_of owing_state = ''BOOKING'' # [''CAPACITY'']"
  by (simp add: pending_of_def owing_state_def locked_state_def empty_state_def)

theorem locked_turn_routing_witness:
  "messages locked_state \<noteq> [] \<and> route_lock locked_state = Val ''BOOKING''
   \<and> (\<exists>cmd. orchestrator_node booking_env locked_state = Inr cmd \<and> goto cmd = ''BOOKING''
          \<and> u_route_lock cmd = Absent)
   \<and> (\<exists>cmd. guardian_node booking_env locked_state = Inr cmd
          \<and> route_lock (apply_update locked_state cmd) = Val ''BOOKING'')
   \<and> (\<exists>cmd. booking_agent_node booking_env locked_state = Inr cmd
          \<and> route_lock (apply_update locked_state cmd) = Null)"
proof -
  have lock: "route_lock locked_state = Val ''BOOKING''"
    by (simp add: locked_state_def empty_state_def)
  have sp: "''BOOKING'' \<in> {''BOOKING'', ''CAPACITY''}" by simp
  let ?c = "\<lparr> cls_intent = ''BOOKING'', cls_language = ''English'', cls_intents = None \<rparr>"
  note r = locked_turn_routing[OF locked_state_messages lock sp classify_booking_env]
  from r have "cls_intent ?c = ''BOOKING'' \<longrightarrow>
            (\<exists>cmd. orchestrator_node booking_env locked_state = Inr cmd \<and> goto cmd = ''BOOKING''
               \<and> language_detected (apply_update locked_state cmd) = Val (cls_language ?c))"
    by blast
  then obtain cmd where
    run: "orchestrator_node booking_env locked_state = Inr cmd" and dest: "goto cmd = ''BOOKING''"
    by auto
  from r have "\<forall>cmd. orchestrator_node booking_env locked_state = Inr cmd \<longrightarrow>
            u_route_lock cmd = Absent \<and> route_lock (apply_update locked_state cmd) = Val ''BOOKING''
            \<and> u_language_detected cmd = Val (cls_language ?c)"
    by blast
  with run have "u_route_lock cmd = Absent" by blast
  with run dest have first: "\<exists>cmd. orchestrator_node booking_env locked_state = Inr cmd
          \<and> goto cmd = ''BOOKING'' \<and> u_route_lock cmd = Absent"
    by blast
  have perm: "check_permission (dict_get (user_role locked_state) (Some ''CARRIER''))
                (dict_get (current_intent locked_state) (Some ''general''))"
    by (simp add: check_permission_iff locked_state_def empty_state_def)
  have lang: "dict_get (language_detected locked_state) (Some ''English'') \<noteq> None"
    by (simp add: locked_state_def empty_state_def)
  from guardian_granted[OF perm lang, of booking_env] obtain g where
    grun: "guardian_node booking_env locked_state = Inr g"
    by blast
  from r have "\<forall>(s' :: agent_state) cmd.
            route_lock s' = Val ''BOOKING'' \<and> guardian_node booking_env s' = Inr cmd \<longrightarrow>
            route_lock (apply_update s' cmd) = Val ''BOOKING''"
    by blast
  with lock grun have "route_lock (apply_update locked_state g) = Val ''BOOKING''" by blast
  with grun have second: "\<exists>cmd. guardian_node booking_env locked_state = Inr cmd
          \<and> route_lock (apply_update locked_state cmd) = Val ''BOOKING''"
    by blast
  have "\<exists>b. booking_agent_node booking_env locked_state = Inr b \<and> u_route_lock b = Null"
    by (simp add: booking_agent_node_def booking_agent_trace_def first_response_def
          llm_tools_invoke_def booking_env_def scripted_env_def locked_state_def empty_state_def
          Let_def no_update_def)
  then obtain b where
    brun: "booking_agent_node booking_env locked_state = Inr b" and bnull: "u_route_lock b = Null"
    by blast
  from r have "\<forall>(s' :: agent_state) cmd. booking_agent_node booking_env s' = Inr cmd \<longrightarrow>
            u_route_lock cmd \<in> {Null, Val ''BOOKING''}
            \<and> route_lock (apply_update s' cmd) \<in> {Null, Val ''BOOKING''}"
    by blast
  with brun have "route_lock (apply_update locked_state b) \<in> {Null, Val ''BOOKING''}" by blast
  moreover have "route_lock (apply_update locked_state b) = Null"
    by (simp add: apply_update_fields bnull)
  ultimately have third: "\<exists>cmd. booking_agent_node booking_env locked_state = Inr cmd
          \<and> route_lock (apply_update locked_state cmd) = Null"
    using brun by blast
  from first second third locked_state_messages lock show ?thesis by blast
qed

text \<open>
  A lock on BOOKING and a classifier that answers CHITCHAT: the orchestrator goes to
  the Guardian, the run ends there, and the lock is still set afterwards.
\<close>

theorem locked_turn_counterexample:
  "route_lock locked_state = Val ''BOOKING''
   \<and> orchestrator_node quiet_env locked_state =
       Inr (no_update \<lparr> u_draft_response := Val (JStr greeting_text),
              u_current_intent := Val ''general'', u_language_detected := Val ''English'',
              u_pending_intents := Val [], goto := ''GUARDIAN'' \<rparr>)
   \<and> (\<exists>s'. graph_run quiet_env recursion_limit ''ORCHESTRATOR'' locked_state = ([], Inr s')
          \<and> route_lock s' = Val ''BOOKING'')"
proof -
  let ?cmd = "no_update \<lparr> u_draft_response := Val (JStr greeting_text),
              u_current_intent := Val ''general'', u_language_detected := Val ''English'',
              u_pending_intents := Val [], goto := ''GUARDIAN'' \<rparr>"
  have lock: "route_lock locked_state = Val ''BOOKING''"
    by (simp add: locked_state_def empty_state_def)
  have orch: "orchestrator_node quiet_env locked_state = Inr ?cmd"
    using orchestrator_routes[OF locked_state_messages classify_quiet_env]
      route_classified_chitchat[of "\<lparr> cls_intent = ''CHITCHAT'', cls_language = ''English'',
         cls_intents = None \<rparr>" quiet_env locked_state]
    by simp
  let ?s1 = "apply_update locked_state ?cmd"
  have perm: "check_permission (dict_get (user_role ?s1) (Some ''CARRIER''))
                (dict_get (current_intent ?s1) (Some ''general''))"
    by (simp add: check_permission_iff apply_update_fields no_update_def)
  have lang: "dict_get (language_detected ?s1) (Some ''English'') \<noteq> None"
    by (simp add: apply_update_fields no_update_def)
  from guardian_granted[OF perm lang, of quiet_env] obtain final where
    g: "guardian_node quiet_env ?s1 = Inr (guardian_finish ?s1 (dict_get (ui_payload ?s1) None) final)"
    by blast
  let ?g = "guardian_finish ?s1 (dict_get (ui_payload ?s1) None) final"
  have pend: "pending_of ?s1 = []"
    by (simp add: pending_after no_update_def)
  have gend: "goto ?g = ''__end__''"
    by (simp add: guardian_finish_goto pend)
  have lock1: "route_lock ?s1 = Val ''BOOKING''"
    by (simp add: apply_update_fields no_update_def lock)
  have glock: "route_lock (apply_update ?s1 ?g) = Val ''BOOKING''"
    by (simp add: apply_update_fields[of ?s1] guardian_finish_lock lock1)
  have step1: "run_node quiet_env ''ORCHESTRATOR'' locked_state = ([], Inr ?cmd)"
    by (simp add: run_node_def orch)
  have no_form: "\<not> truthy_json (dict_get (ui_payload ?s1) None)"
    by (simp add: apply_update_fields no_update_def locked_state_def empty_state_def)
  have step2: "run_node quiet_env ''GUARDIAN'' ?s1 = ([], Inr ?g)"
    by (simp only: guardian_step guardian_trace_quiet[OF no_form] g)
  have dest: "goto ?cmd = ''GUARDIAN''" by (simp add: no_update_def)
  have "graph_run quiet_env recursion_limit ''ORCHESTRATOR'' locked_state
          = ([] @ [], Inr (apply_update ?s1 ?g))"
  proof (rule graph_two_steps[OF step1])
    show "run_node quiet_env (goto ?cmd) ?s1 = ([], Inr ?g)"
      using step2 by (simp only: dest)
  qed (simp_all add: dest gend recursion_limit_def)
  with glock lock orch show ?thesis by simp
qed

theorem queue_owed_routing_witness:
  "messages owing_state \<noteq> [] \<and> pending_of owing_state = [''BOOKING'', ''CAPACITY'']
   \<and> orchestrator_node help_env owing_state =
       Inr (no_update \<lparr> u_current_intent := Val ''booking'',
              u_language_detected := Val ''English'',
              u_pending_intents := Val [''CAPACITY''], goto := ''BOOKING'' \<rparr>)
   \<and> (\<exists>c. orchestrator_node quiet_env owing_state = Inr c \<and> goto c = ''GUARDIAN''
          \<and> u_pending_intents c = Val [])"
proof -
  note r = queue_owed_routing[OF owing_state_messages classify_help_env owing_state_queue]
  from r have owed: "orchestrator_node help_env owing_state =
       Inr (no_update \<lparr> u_current_intent := Val (lower ''BOOKING''),
              u_language_detected := Val ''English'',
              u_pending_intents := Val [''CAPACITY''], goto := ''BOOKING'' \<rparr>)"
    by simp
  note q = queue_owed_routing[OF owing_state_messages classify_quiet_env owing_state_queue]
  from q have "orchestrator_node quiet_env owing_state =
            Inr (no_update \<lparr> u_draft_response := Val (JStr greeting_text),
                   u_current_intent := Val ''general'',
                   u_language_detected := Val ''English'',
                   u_pending_intents := Val [], goto := ''GUARDIAN'' \<rparr>)"
    by simp
  then have side: "\<exists>c. orchestrator_node quiet_env owing_state = Inr c \<and> goto c = ''GUARDIAN''
          \<and> u_pending_intents c = Val []"
    by simp
  from owed side owing_state_messages owing_state_queue show ?thesis by (simp add: lower_names)
qed

text \<open>
  BOOKING and CAPACITY are still owed and the classifier answers CHITCHAT: the
  orchestrator goes to the Guardian and stores an empty queue.
\<close>

theorem queue_chitchat_counterexample:
  "pending_of owing_state = [''BOOKING'', ''CAPACITY'']
   \<and> orchestrator_node quiet_env owing_state =
       Inr (no_update \<lparr> u_draft_response := Val (JStr greeting_text),
              u_current_intent := Val ''general'', u_language_detected := Val ''English'',
              u_pending_intents := Val [], goto := ''GUARDIAN'' \<rparr>)"
  using orchestrator_routes[OF owing_state_messages classify_quiet_env]
    route_classified_chitchat[of "\<lparr> cls_intent = ''CHITCHAT'', cls_language = ''English'',
       cls_intents = None \<rparr>" quiet_env owing_state] owing_state_queue
  by simp


subsection \<open>Role dispatch\<close>

lemma booking_setup_other_role:
  assumes "dict_get (user_role s) (Some ''CARRIER'') \<notin> {Some ''ADMIN'', Some ''OPERATOR'', Some ''CARRIER''}"
  shows "booking_setup env s = \<lparr> tools_to_bind = [], system_prompt = [], prefetched = [] \<rparr>"
  using assms by (simp add: booking_setup_def Let_def)

lemma start_turn_role:
  "user_role (start_turn env stored req tid) = Val (or_else (req_user_role req) ''CARRIER'')"
  by (simp add: start_turn_def Let_def)

lemma start_turn_carrier:
  "carrier_id (start_turn env stored req tid) =
     to_slot (if py_upper env (or_else (req_user_role req) []) = ''OPERATOR'' \<and> truthy_str (req_user_id req)
              then None
              else if py_upper env (or_else (req_user_role req) []) = ''CARRIER'' \<and> truthy_str (req_user_id req)
              then resolve_carrier_id_for_user env (fmt_opt (req_user_id req)) else None)"
  by (simp add: start_turn_def Let_def)

text \<open>
  C10.  The role is compared with the three literals as it stands.  For any other role
  string (a lowercase \<open>carrier\<close>, say) the Booking handler binds no tool and an empty
  system prompt, and calls the model with just that; \<open>check_permission\<close> judges the
  role as it judges CARRIER; and the chat entry point stores a non-empty role string
  in the state exactly as it was sent.
\<close>

theorem role_dispatch_exact:
  assumes other: "role \<notin> {''ADMIN'', ''OPERATOR'', ''CARRIER''}"
  shows "(\<forall>s. user_role s = Val role \<longrightarrow>
            booking_setup env s = \<lparr> tools_to_bind = [], system_prompt = [], prefetched = [] \<rparr>
            \<and> (messages s \<noteq> [] \<longrightarrow>
                 first_response env (booking_setup env s) s =
                   llm_tools_invoke env [] ([SystemMessage []] @ messages s)))
       \<and> (\<forall>intent. check_permission (Some role) intent = check_permission (Some ''CARRIER'') intent)
       \<and> (\<forall>req. req_user_role req = Some role \<and> role \<noteq> [] \<longrightarrow>
            user_role (start_turn env stored req tid) = Val role)"
proof (intro conjI allI impI)
  fix s :: agent_state assume r: "user_role s = Val role"
  with other have o: "dict_get (user_role s) (Some ''CARRIER'')
                        \<notin> {Some ''ADMIN'', Some ''OPERATOR'', Some ''CARRIER''}"
    by simp
  show e: "booking_setup env s = \<lparr> tools_to_bind = [], system_prompt = [], prefetched = [] \<rparr>"
    by (rule booking_setup_other_role[OF o])
  show "first_response env (booking_setup env s) s =
          llm_tools_invoke env [] ([SystemMessage []] @ messages s)"
    by (simp add: e first_response_def)
next
  fix intent
  show "check_permission (Some role) intent = check_permission (Some ''CARRIER'') intent"
    by (simp add: check_permission_iff)
next
  fix req :: chat_request assume "req_user_role req = Some role \<and> role \<noteq> []"
  then show "user_role (start_turn env stored req tid) = Val role"
    by (simp add: start_turn_role or_else_def)
qed

lemma carrier_upper: "py_upper quiet_env ''carrier'' = ''CARRIER''"
  by code_simp

theorem role_dispatch_exact_witness:
  "''carrier'' \<notin> {''ADMIN'', ''OPERATOR'', ''CARRIER''}
   \<and> user_role (start_turn quiet_env empty_state lowercase_request ''t1'') = Val ''carrier''
   \<and> carrier_id (start_turn quiet_env empty_state lowercase_request ''t1'') = Val ''carrier-1''
   \<and> booking_setup quiet_env (start_turn quiet_env empty_state lowercase_request ''t1'')
        = \<lparr> tools_to_bind = [], system_prompt = [], prefetched = [] \<rparr>
   \<and> check_permission (Some ''carrier'') (Some ''booking'')"
proof -
  have other: "''carrier'' \<notin> {''ADMIN'', ''OPERATOR'', ''CARRIER''}" by simp
  note claim = role_dispatch_exact[OF other, of quiet_env empty_state "''t1''"]
  have req: "req_user_role lowercase_request = Some ''carrier'' \<and> ''carrier'' \<noteq> []"
    by (simp add: lowercase_request_def)
  from claim req
  have role: "user_role (start_turn quiet_env empty_state lowercase_request ''t1'') = Val ''carrier''"
    by blast
  with claim
  have bound: "booking_setup quiet_env (start_turn quiet_env empty_state lowercase_request ''t1'')
        = \<lparr> tools_to_bind = [], system_prompt = [], prefetched = [] \<rparr>"
    by blast
  from claim have "check_permission (Some ''carrier'') (Some ''booking'')
                     = check_permission (Some ''CARRIER'') (Some ''booking'')"
    by blast
  then have perm: "check_permission (Some ''carrier'') (Some ''booking'')"
    by (simp add: check_permission_iff)
  have resolved: "resolve_carrier_id_for_user quiet_env u = Some ''carrier-1''" for u
    by (simp add: quiet_env_def scripted_env_def)
  have cid: "carrier_id (start_turn quiet_env empty_state lowercase_request ''t1'') = Val ''carrier-1''"
    by (simp add: start_turn_carrier lowercase_request_def or_else_def carrier_upper resolved)
  from other role cid bound perm show ?thesis by blast
qed


subsection \<open>Date defaults of the global-bookings tool\<close>

lemma add_days_3: "add_days 3 d = next_day (next_day (next_day d))"
  by (simp add: numeral_3_eq_3)

text \<open>
  C9 (as amended).  Called with no start date and no end date, \<open>get_all_bookings\<close>
  queries from today to three days after today: \<open>startDate\<close> is today and \<open>endDate\<close>
  is the third day after it.
\<close>

theorem all_bookings_default_range:
  "map_of (get_all_bookings_params env today status tid cid None None) ''startDate''
     = Some (strftime today)
   \<and> map_of (get_all_bookings_params env today status tid cid None None) ''endDate''
     = Some (strftime (add_days 3 today))
   \<and> add_days 3 today = next_day (next_day (next_day today))"
  by (simp add: get_all_bookings_params_def Let_def add_days_3)

theorem all_bookings_default_range_witness:
  "map_of (get_all_bookings_params quiet_env (Date 2026 11 4) None None None None None) ''startDate''
     = Some ''2026-11-04''
   \<and> map_of (get_all_bookings_params quiet_env (Date 2026 11 4) None None None None None) ''endDate''
     = Some ''2026-11-07''"
proof -
  have s: "strftime (Date 2026 11 4) = ''2026-11-04''" by code_simp
  have e: "strftime (add_days 3 (Date 2026 11 4)) = ''2026-11-07''" by code_simp
  from all_bookings_default_range[of quiet_env "Date 2026 11 4" None None None]
  show ?thesis by (simp only: s e)
qed

text \<open>
  On 2026-11-04 the default end date is 2026-11-07; seven days on would be 2026-11-11.
\<close>

theorem seven_day_range_counterexample:
  "map_of (get_all_bookings_params quiet_env (Date 2026 11 4) None None None None None) ''endDate''
     = Some ''2026-11-07''
   \<and> strftime (add_days 7 (Date 2026 11 4)) = ''2026-11-11''
   \<and> map_of (get_all_bookings_params quiet_env (Date 2026 11 4) None None None None None) ''endDate''
     \<noteq> Some (strftime (add_days 7 (Date 2026 11 4)))"
proof -
  have e: "strftime (add_days 3 (Date 2026 11 4)) = ''2026-11-07''" by code_simp
  have w: "strftime (add_days 7 (Date 2026 11 4)) = ''2026-11-11''" by code_simp
  have p: "map_of (get_all_bookings_params quiet_env (Date 2026 11 4) None None None None None) ''endDate''
     = Some (strftime (add_days 3 (Date 2026 11 4)))"
    by (simp add: get_all_bookings_params_def Let_def)
  show ?thesis unfolding p e w by simp
qed


subsection \<open>The form payload across turns\<close>

lemma guardian_keeps_payload:
  assumes perm: "check_permission (dict_get (user_role s) (Some ''CARRIER''))
                   (dict_get (current_intent s) (Some ''general''))"
      and lang: "dict_get (language_detected s) (Some ''English'') \<noteq> None"
      and stored: "ui_payload s = Val p" and nonempty: "truthy p"
  shows "\<exists>c. guardian_node env s = Inr c \<and> u_ui_payload c = Val p
            \<and> ui_payload (apply_update s c) = Val p"
proof -
  from guardian_granted[OF perm lang] obtain final where
    run: "guardian_node env s = Inr (guardian_finish s (dict_get (ui_payload s) None) final)"
    by blast
  have "u_ui_payload (guardian_finish s (dict_get (ui_payload s) None) final) = Val p"
    using stored nonempty by (simp add: guardian_finish_ui)
  with run show ?thesis by (simp add: apply_update_fields)
qed

lemma orchestrator_leaves_payload:
  "orchestrator_node env s = Inr c \<Longrightarrow> ui_payload (apply_update s c) = ui_payload s"
  using route_classified_no_lock[of env s _ c]
  by (auto simp: orchestrator_node_def apply_update_fields split: if_splits sum.splits)

text \<open>
  C7 (the code at the failing input).  A carrier's first turn runs the form tool and
  ends with the form in \<open>ui_payload\<close>.  The next turn of the same thread, a \<open>thanks\<close>
  that is classified CHITCHAT, does not run the form tool (its one invocation is the
  lookup of the terminals map for the Guardian's prompt), and still ends with the same
  form in \<open>ui_payload\<close>: the Guardian writes back the payload it finds in the stored
  state.
\<close>

theorem stale_form_redelivered:
  "chat_turn form_env empty_state book_request ''t1'' =
     ([(''get_terminals_map'', []), (''prepare_booking_form'', tc_args form_call),
       (''get_terminals_map'', []), (''get_terminals_map'', [])],
      Inr form_turn_state)
   \<and> ui_payload form_turn_state = Val booking_form
   \<and> chat_turn form_env form_turn_state thanks_request ''t1'' =
     ([(''get_terminals_map'', [])], Inr (form_turn_state \<lparr>
        messages := messages form_turn_state @ [HumanMessage ''thanks'', AIMessage ''Done.'' []],
        current_intent := Val ''general'' \<rparr>))
   \<and> ui_payload (form_turn_state \<lparr>
        messages := messages form_turn_state @ [HumanMessage ''thanks'', AIMessage ''Done.'' []],
        current_intent := Val ''general'' \<rparr>) = Val booking_form"
proof -
  have first: "chat_turn form_env empty_state book_request ''t1'' =
     ([(''get_terminals_map'', []), (''prepare_booking_form'', tc_args form_call),
       (''get_terminals_map'', []), (''get_terminals_map'', [])],
      Inr form_turn_state)"
    by code_simp
  have second: "chat_turn form_env form_turn_state thanks_request ''t1'' =
     ([(''get_terminals_map'', [])], Inr (form_turn_state \<lparr>
        messages := messages form_turn_state @ [HumanMessage ''thanks'', AIMessage ''Done.'' []],
        current_intent := Val ''general'' \<rparr>))"
    by code_simp
  have payload: "ui_payload form_turn_state = Val booking_form"
    by (simp add: form_turn_state_def)
  from first second payload show ?thesis by simp
qed

end
